theory Spec2Isabelle
  imports Complex_Main
begin

section \<open>Data definitions\<close>

text \<open>
  The embedding follows \<^verbatim>\<open>main.py\<close>. Python's \<^verbatim>\<open>float\<close> is read as an exact
  real number (no rounding error), Python's \<^verbatim>\<open>int\<close> as \<^typ>\<open>int\<close>. The dictionaries
  keyed by \<^verbatim>\<open>"slot1"\<close>, \<^verbatim>\<open>"slot2"\<close>, \<^verbatim>\<open>"slot3"\<close> always hold exactly these
  three keys, inserted in this order, so they are functions on a three-valued type and
  every iteration over them runs through \<open>slots\<close>. The canonical mutation keys
  \<^verbatim>\<open>"none"\<close>, \<^verbatim>\<open>"golden"\<close>, \<^verbatim>\<open>"diamond"\<close>, \<^verbatim>\<open>"emerald"\<close>, \<^verbatim>\<open>"rainbow"\<close> are a
  datatype; \<^verbatim>\<open>normalize_mutation_key\<close> is the identity on them, and it is modelled
  on strings where a command receives user text.
\<close>

datatype rarity = COMMON | UNCOMMON | RARE | EPIC | LEGENDARY | SPECIAL | HIDDEN

datatype role = TANK | ATTACK | SUPPORT

datatype mutation = MutNone | Golden | Diamond | Emerald | Rainbow

datatype slot = Slot1 | Slot2 | Slot3

record animal =
  animal_id :: string
  rarity :: rarity
  rarity_index :: int
  role :: role
  hp :: int
  atk :: int
  defense :: int

record food =
  food_id :: string
  food_rarity :: rarity
  cost :: int
  hp_bonus :: int
  atk_bonus :: int
  def_bonus :: int

definition slots :: "slot list" where
  "slots = [Slot1, Slot2, Slot3]"

text \<open>\<^verbatim>\<open>RARITY_INDEX\<close>: the position of a rarity in \<^verbatim>\<open>RARITY_ORDER\<close>.\<close>

fun RARITY_INDEX :: "rarity \<Rightarrow> int" where
  "RARITY_INDEX COMMON = 0"
| "RARITY_INDEX UNCOMMON = 1"
| "RARITY_INDEX RARE = 2"
| "RARITY_INDEX EPIC = 3"
| "RARITY_INDEX LEGENDARY = 4"
| "RARITY_INDEX SPECIAL = 5"
| "RARITY_INDEX HIDDEN = 6"

definition MUTATION_ORDER :: "mutation list" where
  "MUTATION_ORDER = [MutNone, Golden, Diamond, Emerald, Rainbow]"

section \<open>Power model\<close>

text \<open>\<^verbatim>\<open>MUTATION_META[m]["ability_multiplier"]\<close>, read by \<^verbatim>\<open>mutation_multiplier_value\<close>.\<close>

fun mutation_multiplier_value :: "mutation \<Rightarrow> real" where
  "mutation_multiplier_value MutNone = 1.0"
| "mutation_multiplier_value Golden = 1.25"
| "mutation_multiplier_value Diamond = 1.5"
| "mutation_multiplier_value Emerald = 2.0"
| "mutation_multiplier_value Rainbow = 5.0"

text \<open>The source's \<^verbatim>\<open>power\<close>; the name is taken by exponentiation in HOL.\<close>

definition power_of :: "animal \<Rightarrow> real" where
  "power_of a = of_int (hp a) * 1.0 + of_int (atk a) * 1.5 + of_int (defense a) * 1.2"

definition food_power :: "food option \<Rightarrow> real" where
  "food_power fo =
     (case fo of
        None \<Rightarrow> 0.0
      | Some f \<Rightarrow> of_int (hp_bonus f) * 1.0 + of_int (atk_bonus f) * 1.5 + of_int (def_bonus f) * 1.2)"

definition effective_power :: "animal \<Rightarrow> food option \<Rightarrow> real \<Rightarrow> real" where
  "effective_power a fo mutation_multiplier = (power_of a + food_power fo) * mutation_multiplier"

text \<open>
  \<^verbatim>\<open>calculate_team_power\<close>: the loop over \<^verbatim>\<open>range(1, 4)\<close> adds each slot's effective
  power to the running total.
\<close>

fun team_power_loop ::
  "slot list \<Rightarrow> (slot \<Rightarrow> animal) \<Rightarrow> (slot \<Rightarrow> food option) \<Rightarrow> (slot \<Rightarrow> mutation) \<Rightarrow> real \<Rightarrow> real"
where
  "team_power_loop [] animals foods mutations tot = tot"
| "team_power_loop (s # rest) animals foods mutations tot =
     team_power_loop rest animals foods mutations
       (tot + effective_power (animals s) (foods s) (mutation_multiplier_value (mutations s)))"

definition calculate_team_power ::
  "(slot \<Rightarrow> animal) \<Rightarrow> (slot \<Rightarrow> food option) \<Rightarrow> (slot \<Rightarrow> mutation) \<Rightarrow> real"
where
  "calculate_team_power animals foods mutations = team_power_loop slots animals foods mutations 0.0"

datatype error = ValueError | IndexError

fun mutation_stage :: "mutation \<Rightarrow> int" where
  "mutation_stage MutNone = 0"
| "mutation_stage Golden = 0"
| "mutation_stage Diamond = 1"
| "mutation_stage Emerald = 2"
| "mutation_stage Rainbow = 3"

fun count_foods :: "slot list \<Rightarrow> (slot \<Rightarrow> food option) \<Rightarrow> int" where
  "count_foods [] player_foods = 0"
| "count_foods (s # rest) player_foods =
     (if player_foods s \<noteq> None then 1 else 0) + count_foods rest player_foods"

fun scan_mutations :: "slot list \<Rightarrow> (slot \<Rightarrow> mutation) \<Rightarrow> int \<times> int \<Rightarrow> int \<times> int" where
  "scan_mutations [] player_mutations (mutated_count, highest_stage) = (mutated_count, highest_stage)"
| "scan_mutations (s # rest) player_mutations (mutated_count, highest_stage) =
     scan_mutations rest player_mutations
       (if player_mutations s \<noteq> MutNone then mutated_count + 1 else mutated_count,
        max highest_stage (mutation_stage (player_mutations s)))"

definition base_range :: "int \<Rightarrow> int \<Rightarrow> real \<times> real" where
  "base_range mutated_count food_count =
     (if mutated_count = 0 then
        (if food_count = 0 then (80.0, 150.0)
         else if food_count = 1 then (80.0, 145.0)
         else (80.0, 140.0))
      else if mutated_count = 3 then
        (if food_count = 0 then (75.0, 130.0) else (70.0, 130.0))
      else if food_count = 0 then (75.0, 135.0)
      else (70.0, 135.0))"

definition target_window ::
  "(slot \<Rightarrow> food option) \<Rightarrow> (slot \<Rightarrow> mutation) \<Rightarrow> real \<Rightarrow> real \<times> real"
where
  "target_window player_foods player_mutations player_final_power =
     (let food_count = count_foods slots player_foods;
          (mutated_count, highest_stage) = scan_mutations slots player_mutations (0, 0);
          (base_min_pct, base_max_pct) = base_range mutated_count food_count;
          buff_per_stage = 5.0 * of_int highest_stage;
          min_pct = max 0.0 (base_min_pct - buff_per_stage / 2);
          max_pct = max 0.0 (base_max_pct + buff_per_stage / 2)
      in (player_final_power * (min_pct / 100.0), player_final_power * (max_pct / 100.0)))"

definition spec_base_percent :: "nat \<Rightarrow> nat \<Rightarrow> real \<times> real" where
  "spec_base_percent mutated items =
     (if mutated = 0 then
        (if items = 0 then (80, 150) else if items = 1 then (80, 145) else (80, 140))
      else if mutated = 1 \<or> mutated = 2 then
        (if items = 0 then (75, 135) else if items = 1 then (70, 135) else (70, 135))
      else
        (if items = 0 then (75, 130) else if items = 1 then (70, 130) else (70, 130)))"

fun spec_stage :: "mutation \<Rightarrow> nat" where
  "spec_stage MutNone = 0"
| "spec_stage Golden = 0"
| "spec_stage Diamond = 1"
| "spec_stage Emerald = 2"
| "spec_stage Rainbow = 3"

definition mutated_slots :: "(slot \<Rightarrow> mutation) \<Rightarrow> nat" where
  "mutated_slots ms = length (filter (\<lambda>s. ms s \<noteq> MutNone) [Slot1, Slot2, Slot3])"

definition equipped_items :: "(slot \<Rightarrow> food option) \<Rightarrow> nat" where
  "equipped_items fs = length (filter (\<lambda>s. fs s \<noteq> None) [Slot1, Slot2, Slot3])"

definition highest_spec_stage :: "(slot \<Rightarrow> mutation) \<Rightarrow> nat" where
  "highest_spec_stage ms = max (max (spec_stage (ms Slot1)) (spec_stage (ms Slot2))) (spec_stage (ms Slot3))"

text \<open>\<^verbatim>\<open>str.strip\<close> and \<^verbatim>\<open>str.lower\<close>, on ASCII text.\<close>

definition py_isspace :: "char \<Rightarrow> bool" where
  "py_isspace c = ((of_char c :: nat) \<in> {9, 10, 11, 12, 13, 28, 29, 30, 31, 32})"

definition py_strip :: "string \<Rightarrow> string" where
  "py_strip s = rev (dropWhile py_isspace (rev (dropWhile py_isspace s)))"

definition py_lower_char :: "char \<Rightarrow> char" where
  "py_lower_char c =
     (case map_of (zip ''ABCDEFGHIJKLMNOPQRSTUVWXYZ'' ''abcdefghijklmnopqrstuvwxyz'') c of
        None \<Rightarrow> c
      | Some l \<Rightarrow> l)"

definition py_lower :: "string \<Rightarrow> string" where
  "py_lower s = map py_lower_char s"

fun mutation_key :: "mutation \<Rightarrow> string" where
  "mutation_key MutNone = ''none''"
| "mutation_key Golden = ''golden''"
| "mutation_key Diamond = ''diamond''"
| "mutation_key Emerald = ''emerald''"
| "mutation_key Rainbow = ''rainbow''"

definition MUTATION_ALIASES :: "(mutation \<times> string list) list" where
  "MUTATION_ALIASES =
     [(MutNone, [''none'', ''normal'', ''base'', ''n'']),
      (Golden, [''golden'', ''gold'', ''g'']),
      (Diamond, [''diamond'', ''dia'', ''d'']),
      (Emerald, [''emerald'', ''emer'', ''em'', ''e'']),
      (Rainbow, [''rainbow'', ''rb'', ''rain'', ''r''])]"

fun alias_loop :: "(mutation \<times> string list) list \<Rightarrow> string \<Rightarrow> mutation option" where
  "alias_loop [] key = None"
| "alias_loop ((canonical, aliases) # rest) key =
     (if key = mutation_key canonical \<or> key \<in> set aliases then Some canonical
      else alias_loop rest key)"

definition normalize_mutation_key :: "string \<Rightarrow> error + mutation" where
  "normalize_mutation_key v =
     (let key = py_lower (py_strip v) in
      case alias_loop MUTATION_ALIASES key of
        Some canonical \<Rightarrow> Inr canonical
      | None \<Rightarrow>
          (case find (\<lambda>m. mutation_key m = key) MUTATION_ORDER of
             Some m \<Rightarrow> Inr m
           | None \<Rightarrow> Inl ValueError))"

text \<open>
  \<^verbatim>\<open>roll_fusion_result\<close>; \<open>u\<close> is the value \<^verbatim>\<open>random.random()\<close> returns.
\<close>

definition roll_fusion_result :: "mutation \<Rightarrow> real \<Rightarrow> error + (mutation \<times> int)" where
  "roll_fusion_result mutation u =
     (let roll = u * 100 in
      if mutation = MutNone then
        (if roll < 50 then Inr (Golden, 1)
         else if roll < 75 then Inr (Diamond, 1)
         else if roll < 95 then Inr (Emerald, 1)
         else Inr (Rainbow, 1))
      else if mutation = Golden then
        (if roll < 50 then Inr (Diamond, 1)
         else if roll < 90 then Inr (Emerald, 1)
         else Inr (Rainbow, 1))
      else if mutation = Diamond then
        (if roll < 75 then Inr (Emerald, 1) else Inr (Rainbow, 1))
      else if mutation = Emerald then
        (if roll < 50 then Inr (Emerald, 3) else Inr (Rainbow, 1))
      else Inl ValueError)"

section \<open>Inventory\<close>

type_synonym bucket = "mutation \<Rightarrow> int"

record profile =
  zoo :: "string \<rightharpoonup> bucket"
  team :: "slot \<Rightarrow> (string \<times> mutation) option"

definition default_mutation_counts :: bucket where
  "default_mutation_counts = (\<lambda>m. 0)"

definition get_owned_count :: "profile \<Rightarrow> string \<Rightarrow> mutation \<Rightarrow> int" where
  "get_owned_count p aid mutation =
     (case zoo p aid of
        None \<Rightarrow> max 0 0
      | Some zoo_entry \<Rightarrow> max 0 (zoo_entry mutation))"

definition rebuilt_bucket :: "bucket option \<Rightarrow> bucket" where
  "rebuilt_bucket current =
     (case current of
        None \<Rightarrow> default_mutation_counts
      | Some b \<Rightarrow> (\<lambda>m. max 0 (b m)))"

definition add_animal :: "profile \<Rightarrow> string \<Rightarrow> mutation \<Rightarrow> int \<Rightarrow> profile" where
  "add_animal p aid mutation qty0 =
     (let qty = max 0 qty0 in
      if qty \<le> 0 then p
      else
        let bucket = rebuilt_bucket (zoo p aid);
            bucket = bucket(mutation := bucket mutation + qty)
        in p\<lparr>zoo := (zoo p)(aid \<mapsto> bucket)\<rparr>)"

definition remove_animal :: "profile \<Rightarrow> string \<Rightarrow> mutation \<Rightarrow> int \<Rightarrow> int \<times> profile" where
  "remove_animal p aid mutation qty0 =
     (let qty = max 0 qty0 in
      if qty \<le> 0 then (0, p)
      else
        let bucket = rebuilt_bucket (zoo p aid);
            owned = bucket mutation;
            removed = min owned qty;
            bucket = bucket(mutation := max 0 (owned - removed))
        in (removed, p\<lparr>zoo := (zoo p)(aid \<mapsto> bucket)\<rparr>))"

fun reserved_loop ::
  "slot list \<Rightarrow> (slot \<Rightarrow> (string \<times> mutation) option) \<Rightarrow> string \<Rightarrow> mutation \<Rightarrow> int \<Rightarrow> int"
where
  "reserved_loop [] tm aid mutation tot = tot"
| "reserved_loop (s # rest) tm aid mutation tot =
     (case tm s of
        None \<Rightarrow> reserved_loop rest tm aid mutation tot
      | Some (slot_animal, slot_mutation) \<Rightarrow>
          reserved_loop rest tm aid mutation
            (if slot_animal = aid \<and> slot_mutation = mutation then tot + 1 else tot))"

definition reserved_count ::
  "(slot \<Rightarrow> (string \<times> mutation) option) \<Rightarrow> string \<Rightarrow> mutation \<Rightarrow> int"
where
  "reserved_count tm aid mutation = reserved_loop slots tm aid mutation 0"

definition sellable_amount :: "profile \<Rightarrow> string \<Rightarrow> mutation \<Rightarrow> int" where
  "sellable_amount p aid mutation =
     (let owned = get_owned_count p aid mutation;
          reserved = reserved_count (team p) aid mutation
      in max 0 (owned - reserved))"

definition adjust_owned_count :: "(string \<rightharpoonup> int) \<Rightarrow> string \<Rightarrow> int \<Rightarrow> (string \<rightharpoonup> int)" where
  "adjust_owned_count owned_counts aid delta =
     owned_counts(aid \<mapsto> max 0 ((case owned_counts aid of None \<Rightarrow> 0 | Some c \<Rightarrow> c) + delta))"

datatype fuse_reply =
    UnknownAnimal
  | InvalidMutation
  | RainbowCannotFuse
  | NotEnoughToFuse int
  | FusionFailed
  | FusionRaised error
  | FusionComplete mutation int

definition fuse ::
  "profile \<Rightarrow> (string \<rightharpoonup> int) \<Rightarrow> animal option \<Rightarrow> string \<Rightarrow> real
     \<Rightarrow> fuse_reply \<times> profile \<times> (string \<rightharpoonup> int)"
where
  "fuse p owned_counts resolved mutation_text u =
     (case resolved of
        None \<Rightarrow> (UnknownAnimal, p, owned_counts)
      | Some a \<Rightarrow>
          (case normalize_mutation_key mutation_text of
             Inl e \<Rightarrow> (InvalidMutation, p, owned_counts)
           | Inr mk \<Rightarrow>
               if mk = Rainbow then (RainbowCannotFuse, p, owned_counts)
               else
                 let available = sellable_amount p (animal_id a) mk in
                 if available < 4 then (NotEnoughToFuse available, p, owned_counts)
                 else
                   let (removed, p1) = remove_animal p (animal_id a) mk 4 in
                   if removed < 4 then (FusionFailed, p1, owned_counts)
                   else
                     (case roll_fusion_result mk u of
                        Inl e \<Rightarrow> (FusionRaised e, p1, owned_counts)
                      | Inr (result_mutation, result_qty) \<Rightarrow>
                          let p2 = add_animal p1 (animal_id a) result_mutation result_qty;
                              owned_delta = result_qty - removed
                          in (FusionComplete result_mutation result_qty, p2,
                              adjust_owned_count owned_counts (animal_id a) owned_delta))))"

fun mutation_rank :: "mutation \<Rightarrow> nat" where
  "mutation_rank MutNone = 0"
| "mutation_rank Golden = 1"
| "mutation_rank Diamond = 2"
| "mutation_rank Emerald = 3"
| "mutation_rank Rainbow = 4"

definition refusals :: "fuse_reply set" where
  "refusals = {UnknownAnimal, InvalidMutation, RainbowCannotFuse} \<union> range NotEnoughToFuse"

section \<open>Combat resolver\<close>

definition apply_food :: "animal \<Rightarrow> food option \<Rightarrow> int \<times> int \<times> int" where
  "apply_food a fo =
     (hp a + (case fo of Some f \<Rightarrow> hp_bonus f | None \<Rightarrow> 0),
      atk a + (case fo of Some f \<Rightarrow> atk_bonus f | None \<Rightarrow> 0),
      defense a + (case fo of Some f \<Rightarrow> def_bonus f | None \<Rightarrow> 0))"

fun first_alive_loop :: "slot list \<Rightarrow> (slot \<Rightarrow> int) \<Rightarrow> slot option" where
  "first_alive_loop [] hp_map = None"
| "first_alive_loop (s # rest) hp_map =
     (if hp_map s > 0 then Some s else first_alive_loop rest hp_map)"

definition first_alive :: "(slot \<Rightarrow> int) \<Rightarrow> slot option" where
  "first_alive hp_map = first_alive_loop slots hp_map"

definition living_defense :: "(slot \<Rightarrow> int) \<Rightarrow> (slot \<Rightarrow> int \<times> int \<times> int) \<Rightarrow> int" where
  "living_defense defender_hp defender_stats =
     sum_list (map (\<lambda>s. snd (snd (defender_stats s))) (filter (\<lambda>s. defender_hp s > 0) slots))"

fun attack_loop ::
  "slot list \<Rightarrow> (slot \<Rightarrow> int) \<Rightarrow> (slot \<Rightarrow> int \<times> int \<times> int)
     \<Rightarrow> (slot \<Rightarrow> int) \<Rightarrow> (slot \<Rightarrow> int \<times> int \<times> int) \<Rightarrow> (slot \<Rightarrow> int)"
where
  "attack_loop [] attacker_hp attacker_stats defender_hp defender_stats = defender_hp"
| "attack_loop (s # rest) attacker_hp attacker_stats defender_hp defender_stats =
     (if attacker_hp s \<le> 0 then
        attack_loop rest attacker_hp attacker_stats defender_hp defender_stats
      else
        (case first_alive defender_hp of
           None \<Rightarrow> defender_hp
         | Some target_slot \<Rightarrow>
             let def_value = living_defense defender_hp defender_stats;
                 dmg = max 1 (fst (snd (attacker_stats s)) - def_value)
             in attack_loop rest attacker_hp attacker_stats
                  (defender_hp(target_slot := max 0 (defender_hp target_slot - dmg)))
                  defender_stats))"

definition attack_phase ::
  "(slot \<Rightarrow> int) \<Rightarrow> (slot \<Rightarrow> int \<times> int \<times> int)
     \<Rightarrow> (slot \<Rightarrow> int) \<Rightarrow> (slot \<Rightarrow> int \<times> int \<times> int) \<Rightarrow> (slot \<Rightarrow> int)"
where
  "attack_phase attacker_hp attacker_stats defender_hp defender_stats =
     attack_loop slots attacker_hp attacker_stats defender_hp defender_stats"

function battle_loop ::
  "(slot \<Rightarrow> int \<times> int \<times> int) \<Rightarrow> (slot \<Rightarrow> int \<times> int \<times> int)
     \<Rightarrow> nat \<Rightarrow> (slot \<Rightarrow> int) \<Rightarrow> (slot \<Rightarrow> int) \<Rightarrow> nat \<times> (slot \<Rightarrow> int) \<times> (slot \<Rightarrow> int)"
where
  "battle_loop player_stats enemy_stats rounds player_hp enemy_hp =
     (if first_alive player_hp \<noteq> None \<and> first_alive enemy_hp \<noteq> None \<and> rounds < 100 then
        (if first_alive (attack_phase player_hp player_stats enemy_hp enemy_stats) = None then
           (rounds + 1, player_hp, attack_phase player_hp player_stats enemy_hp enemy_stats)
         else
           battle_loop player_stats enemy_stats (rounds + 1)
             (attack_phase (attack_phase player_hp player_stats enemy_hp enemy_stats) enemy_stats
                player_hp player_stats)
             (attack_phase player_hp player_stats enemy_hp enemy_stats))
      else (rounds, player_hp, enemy_hp))"
  by pat_completeness auto

termination
  by (relation "measure (\<lambda>(player_stats, enemy_stats, rounds, player_hp, enemy_hp). 100 - rounds)") auto

definition hp_sum :: "(slot \<Rightarrow> int) \<Rightarrow> int" where
  "hp_sum hp_map = sum_list (map (\<lambda>s. max 0 (hp_map s)) slots)"

definition decide_winner :: "nat \<Rightarrow> (slot \<Rightarrow> int) \<Rightarrow> (slot \<Rightarrow> int) \<Rightarrow> bool" where
  "decide_winner rounds player_hp enemy_hp =
     (let player_alive = (first_alive player_hp \<noteq> None);
          enemy_alive = (first_alive enemy_hp \<noteq> None);
          cap_reached = (rounds \<ge> 100 \<and> player_alive \<and> enemy_alive)
      in if cap_reached then
           (let player_hp_total = hp_sum player_hp;
                enemy_hp_total = hp_sum enemy_hp
            in player_hp_total > enemy_hp_total)
         else player_alive \<and> \<not> enemy_alive)"

definition resolve_combat ::
  "(slot \<Rightarrow> animal) \<Rightarrow> (slot \<Rightarrow> food option) \<Rightarrow> (slot \<Rightarrow> animal) \<Rightarrow> (slot \<Rightarrow> food option)
     \<Rightarrow> nat \<times> (slot \<Rightarrow> int) \<times> (slot \<Rightarrow> int) \<times> bool"
where
  "resolve_combat player_animals player_foods enemy_animals enemy_foods =
     (let player_stats = (\<lambda>s. apply_food (player_animals s) (player_foods s));
          enemy_stats = (\<lambda>s. apply_food (enemy_animals s) (enemy_foods s));
          (rounds, player_hp, enemy_hp) =
             battle_loop player_stats enemy_stats 0 (\<lambda>s. fst (player_stats s)) (\<lambda>s. fst (enemy_stats s))
      in (rounds, player_hp, enemy_hp, decide_winner rounds player_hp enemy_hp))"

text \<open>The spec's words for one strike and for the remaining health of a side.\<close>

definition spec_strike ::
  "slot \<Rightarrow> (slot \<Rightarrow> int) \<Rightarrow> (slot \<Rightarrow> int \<times> int \<times> int)
     \<Rightarrow> (slot \<Rightarrow> int \<times> int \<times> int) \<Rightarrow> (slot \<Rightarrow> int) \<Rightarrow> (slot \<Rightarrow> int)"
where
  "spec_strike s attacker_hp attacker_stats defender_stats defender_hp =
     (if 0 < attacker_hp s then
        (case find (\<lambda>t. 0 < defender_hp t) [Slot1, Slot2, Slot3] of
           None \<Rightarrow> defender_hp
         | Some t \<Rightarrow>
             defender_hp
               (t := max 0 (defender_hp t -
                  max 1 (fst (snd (attacker_stats s)) -
                    (\<Sum>d \<leftarrow> [Slot1, Slot2, Slot3].
                       if 0 < defender_hp d then snd (snd (defender_stats d)) else 0)))))
      else defender_hp)"

definition remaining_health :: "(slot \<Rightarrow> int) \<Rightarrow> int" where
  "remaining_health h = max 0 (h Slot1) + max 0 (h Slot2) + max 0 (h Slot3)"

definition wall :: "int \<Rightarrow> animal" where
  "wall a = \<lparr>animal_id = ''wall'', rarity = COMMON, rarity_index = 0, role = TANK,
             hp = 1000, atk = a, defense = 0\<rparr>"

definition wall_hp :: "int \<Rightarrow> slot \<Rightarrow> int" where
  "wall_hp v = (\<lambda>s. if s = Slot1 then v else 1000)"

section \<open>Reward calculator\<close>

text \<open>Python's \<^verbatim>\<open>round\<close> of a float to an integer: to the nearest, a tie to the even one.\<close>

definition py_round :: "real \<Rightarrow> int" where
  "py_round x =
     (let f = \<lfloor>x\<rfloor>; d = x - of_int f in
      if d < 1 / 2 then f
      else if 1 / 2 < d then f + 1
      else if even f then f
      else f + 1)"







definition cow :: animal where
  "cow = \<lparr>animal_id = ''cow'', rarity = COMMON, rarity_index = 0, role = TANK,
          hp = 11, atk = 3, defense = 3\<rparr>"

definition cow_keeper :: "int \<Rightarrow> (slot \<Rightarrow> (string \<times> mutation) option) \<Rightarrow> profile" where
  "cow_keeper n tm = \<lparr>zoo = [''cow'' \<mapsto> default_mutation_counts(MutNone := n)], team = tm\<rparr>"

section \<open>Catalog\<close>

text \<open>
  \<^verbatim>\<open>build_animals\<close> and \<^verbatim>\<open>build_foods\<close>: the entries in the order they are added (the
  order of \<^verbatim>\<open>ANIMALS.values()\<close> and \<^verbatim>\<open>FOODS.values()\<close>), without emoji, ability text
  and aliases. \<open>mk_animal\<close> and \<open>mk_food\<close> are the two local \<^verbatim>\<open>add\<close> functions.
\<close>

definition mk_animal :: "rarity \<Rightarrow> int \<Rightarrow> role \<Rightarrow> string \<Rightarrow> int \<Rightarrow> int \<Rightarrow> int \<Rightarrow> animal" where
  "mk_animal r ri ro aid h a d =
     \<lparr>animal_id = aid, rarity = r, rarity_index = ri, role = ro, hp = h, atk = a, defense = d\<rparr>"

definition mk_food :: "string \<Rightarrow> rarity \<Rightarrow> int \<Rightarrow> int \<Rightarrow> int \<Rightarrow> int \<Rightarrow> food" where
  "mk_food fid r c h a d =
     \<lparr>food_id = fid, food_rarity = r, cost = c, hp_bonus = h, atk_bonus = a, def_bonus = d\<rparr>"

definition ANIMALS :: "animal list" where
  "ANIMALS =
     [mk_animal COMMON (RARITY_INDEX COMMON) ATTACK ''mouse'' 7 6 1,
      mk_animal COMMON (RARITY_INDEX COMMON) ATTACK ''chicken'' 7 5 1,
      mk_animal COMMON (RARITY_INDEX COMMON) ATTACK ''fish'' 7 5 1,
      mk_animal COMMON (RARITY_INDEX COMMON) TANK ''pig'' 10 3 3,
      mk_animal COMMON (RARITY_INDEX COMMON) TANK ''cow'' 11 3 3,
      mk_animal COMMON (RARITY_INDEX COMMON) TANK ''ram'' 9 4 3,
      mk_animal COMMON (RARITY_INDEX COMMON) TANK ''sheep'' 9 3 4,
      mk_animal COMMON (RARITY_INDEX COMMON) TANK ''goat'' 8 4 3,
      mk_animal COMMON (RARITY_INDEX COMMON) SUPPORT ''bug'' 7 3 3,
      mk_animal COMMON (RARITY_INDEX COMMON) SUPPORT ''ant'' 6 3 3,
      mk_animal COMMON (RARITY_INDEX COMMON) SUPPORT ''bird'' 7 3 3,
      mk_animal UNCOMMON (RARITY_INDEX UNCOMMON) ATTACK ''dog'' 8 7 2,
      mk_animal UNCOMMON (RARITY_INDEX UNCOMMON) ATTACK ''cat'' 8 7 2,
      mk_animal UNCOMMON (RARITY_INDEX UNCOMMON) ATTACK ''snake'' 8 8 2,
      mk_animal UNCOMMON (RARITY_INDEX UNCOMMON) TANK ''horse'' 13 4 4,
      mk_animal UNCOMMON (RARITY_INDEX UNCOMMON) TANK ''boar'' 12 5 4,
      mk_animal UNCOMMON (RARITY_INDEX UNCOMMON) TANK ''deer'' 12 4 5,
      mk_animal UNCOMMON (RARITY_INDEX UNCOMMON) TANK ''turtle'' 14 2 5,
      mk_animal UNCOMMON (RARITY_INDEX UNCOMMON) SUPPORT ''tropicalfish'' 8 4 4,
      mk_animal RARE (RARITY_INDEX RARE) ATTACK ''wolf'' 9 9 3,
      mk_animal RARE (RARITY_INDEX RARE) ATTACK ''fox'' 9 9 3,
      mk_animal RARE (RARITY_INDEX RARE) ATTACK ''dolphin'' 10 8 3,
      mk_animal RARE (RARITY_INDEX RARE) TANK ''crocodile'' 15 5 6,
      mk_animal RARE (RARITY_INDEX RARE) SUPPORT ''raccoon'' 9 4 5,
      mk_animal RARE (RARITY_INDEX RARE) SUPPORT ''owl'' 9 3 6,
      mk_animal RARE (RARITY_INDEX RARE) SUPPORT ''parrot'' 8 4 5,
      mk_animal EPIC (RARITY_INDEX EPIC) TANK ''elephant'' 18 4 8,
      mk_animal EPIC (RARITY_INDEX EPIC) TANK ''hippo'' 19 4 8,
      mk_animal EPIC (RARITY_INDEX EPIC) TANK ''llama'' 16 5 7,
      mk_animal EPIC (RARITY_INDEX EPIC) TANK ''giraffe'' 17 5 7,
      mk_animal EPIC (RARITY_INDEX EPIC) SUPPORT ''swan_epic'' 11 4 7,
      mk_animal EPIC (RARITY_INDEX EPIC) SUPPORT ''flamingo'' 10 5 6,
      mk_animal LEGENDARY (RARITY_INDEX LEGENDARY) ATTACK ''shark'' 14 11 4,
      mk_animal LEGENDARY (RARITY_INDEX LEGENDARY) TANK ''mammoth'' 22 5 9,
      mk_animal LEGENDARY (RARITY_INDEX LEGENDARY) TANK ''seal'' 20 6 8,
      mk_animal LEGENDARY (RARITY_INDEX LEGENDARY) TANK ''whale'' 24 4 10,
      mk_animal SPECIAL (RARITY_INDEX SPECIAL) SUPPORT ''octopus'' 12 5 7,
      mk_animal SPECIAL (RARITY_INDEX SPECIAL) SUPPORT ''butterfly'' 10 4 6,
      mk_animal HIDDEN (RARITY_INDEX HIDDEN) ATTACK ''dragon'' 16 13 5,
      mk_animal HIDDEN (RARITY_INDEX HIDDEN) TANK ''trex'' 25 7 10,
      mk_animal HIDDEN (RARITY_INDEX HIDDEN) SUPPORT ''unicorn'' 14 6 8]"

definition FOODS :: "food list" where
  "FOODS =
     [mk_food ''apple'' COMMON 10 2 0 0,
      mk_food ''carrot'' COMMON 10 1 1 0,
      mk_food ''berry'' COMMON 12 0 1 1,
      mk_food ''bread'' COMMON 15 2 0 1,
      mk_food ''corn'' COMMON 15 1 2 0,
      mk_food ''honey'' UNCOMMON 30 3 1 1,
      mk_food ''seaweed'' UNCOMMON 35 2 2 1,
      mk_food ''mushroom'' UNCOMMON 35 1 2 2,
      mk_food ''coconut'' UNCOMMON 40 4 0 2,
      mk_food ''sushi'' RARE 80 3 4 2,
      mk_food ''cheese'' RARE 75 5 2 1,
      mk_food ''pepper'' RARE 85 0 6 1,
      mk_food ''egg'' RARE 80 4 2 2,
      mk_food ''steak'' EPIC 200 6 6 2,
      mk_food ''ramen'' EPIC 210 4 5 4,
      mk_food ''salmon'' EPIC 220 5 5 3,
      mk_food ''truffle'' EPIC 230 3 6 5,
      mk_food ''golden_apple'' LEGENDARY 500 10 6 6,
      mk_food ''phoenix_pepper'' LEGENDARY 520 4 12 4,
      mk_food ''royal_honey'' LEGENDARY 510 8 5 8,
      mk_food ''stardust'' SPECIAL 900 12 10 10,
      mk_food ''moon_berry'' SPECIAL 880 14 8 8,
      mk_food ''dragons_feast'' HIDDEN 1500 16 16 12,
      mk_food ''unicorn_cake'' HIDDEN 1550 14 12 14,
      mk_food ''abyssal_ink'' HIDDEN 1600 12 18 10,
      mk_food ''ancient_seed'' SPECIAL 950 18 6 12]"

section \<open>Random source\<close>

text \<open>
  The generator is the stream of its future draws. A draw is read as the float of
  \<^verbatim>\<open>random.random()\<close> (its first component, in [0, 1) for a real generator) or as the
  index \<^verbatim>\<open>random.choice\<close> picks (its second component, taken modulo the length).
  \<^verbatim>\<open>random.choice\<close> of an empty sequence raises \<^verbatim>\<open>IndexError\<close>.
\<close>

type_synonym rng = "nat \<Rightarrow> real \<times> nat"

definition rng_tail :: "rng \<Rightarrow> rng" where
  "rng_tail g = (\<lambda>n. g (Suc n))"

definition random_random :: "rng \<Rightarrow> real \<times> rng" where
  "random_random g = (fst (g 0), rng_tail g)"

definition random_choice :: "'a list \<Rightarrow> rng \<Rightarrow> error + ('a \<times> rng)" where
  "random_choice xs g =
     (if xs = [] then Inl IndexError
      else Inr (xs ! (snd (g 0) mod length xs), rng_tail g))"

section \<open>Opponent synthesizer\<close>

definition random_animal_by_rarity_and_role ::
  "int list \<Rightarrow> role \<Rightarrow> rng \<Rightarrow> error + (animal \<times> rng)"
where
  "random_animal_by_rarity_and_role allowed_indices r g =
     (let candidates = filter (\<lambda>a. role a = r \<and> rarity_index a \<in> set allowed_indices) ANIMALS
      in random_choice candidates g)"

definition random_enemy_food :: "animal \<Rightarrow> rng \<Rightarrow> error + (food option \<times> rng)" where
  "random_enemy_food a g =
     (let (u, g1) = random_random g in
      if u \<ge> 0.35 then Inr (None, g1)
      else
        let animal_idx = RARITY_INDEX (rarity a);
            candidates = filter (\<lambda>f. \<bar>RARITY_INDEX (food_rarity f) - animal_idx\<bar> \<le> 1) FOODS;
            candidates = (if candidates = [] then FOODS else candidates)
        in (case random_choice candidates g1 of
              Inl e \<Rightarrow> Inl e
            | Inr (f, g2) \<Rightarrow> Inr (Some f, g2)))"

definition random_enemy_mutation :: "rng \<Rightarrow> mutation \<times> rng" where
  "random_enemy_mutation g =
     (let (roll, g1) = random_random g in
      if roll < 0.55 then (MutNone, g1)
      else if roll < 0.75 then (Golden, g1)
      else if roll < 0.9 then (Diamond, g1)
      else if roll < 0.97 then (Emerald, g1)
      else (Rainbow, g1))"

definition MUTATION_STRENGTH_ORDER :: "mutation list" where
  "MUTATION_STRENGTH_ORDER = sort_key mutation_multiplier_value MUTATION_ORDER"

text \<open>\<^verbatim>\<open>list.index\<close>: the first position of an element (every mutation is in the list).\<close>

fun index_of :: "'a list \<Rightarrow> 'a \<Rightarrow> nat" where
  "index_of [] x = 0"
| "index_of (y # ys) x = (if y = x then 0 else Suc (index_of ys x))"

fun downgrade_loop ::
  "(slot \<times> real) list \<Rightarrow> (slot \<Rightarrow> mutation) \<Rightarrow> bool \<times> (slot \<Rightarrow> mutation)"
where
  "downgrade_loop [] mutations = (False, mutations)"
| "downgrade_loop ((s, current_multiplier) # rest) mutations =
     (let order_idx = index_of MUTATION_STRENGTH_ORDER (mutations s) in
      if order_idx > 0 \<and> current_multiplier > 1.0 then
        (True, mutations(s := MUTATION_STRENGTH_ORDER ! (order_idx - 1)))
      else downgrade_loop rest mutations)"

definition downgrade_mutation :: "(slot \<Rightarrow> mutation) \<Rightarrow> bool \<times> (slot \<Rightarrow> mutation)" where
  "downgrade_mutation mutations =
     (let sorted_slots =
            sort_key (\<lambda>item. - snd item)
              (map (\<lambda>s. (s, mutation_multiplier_value (mutations s))) slots)
      in downgrade_loop sorted_slots mutations)"

fun upgrade_loop ::
  "(slot \<times> real) list \<Rightarrow> (slot \<Rightarrow> mutation) \<Rightarrow> bool \<times> (slot \<Rightarrow> mutation)"
where
  "upgrade_loop [] mutations = (False, mutations)"
| "upgrade_loop ((s, mult) # rest) mutations =
     (let order_idx = index_of MUTATION_STRENGTH_ORDER (mutations s) in
      if order_idx < length MUTATION_STRENGTH_ORDER - 1 then
        (True, mutations(s := MUTATION_STRENGTH_ORDER ! (order_idx + 1)))
      else upgrade_loop rest mutations)"

definition upgrade_mutation :: "(slot \<Rightarrow> mutation) \<Rightarrow> bool \<times> (slot \<Rightarrow> mutation)" where
  "upgrade_mutation mutations =
     (let sorted_slots =
            sort_key (\<lambda>item. snd item)
              (map (\<lambda>s. (s, mutation_multiplier_value (mutations s))) slots)
      in upgrade_loop sorted_slots mutations)"

fun highest_food_loop ::
  "slot list \<Rightarrow> (slot \<Rightarrow> food option) \<Rightarrow> slot option \<times> real \<Rightarrow> slot option \<times> real"
where
  "highest_food_loop [] foods (slot_to_remove, highest) = (slot_to_remove, highest)"
| "highest_food_loop (s # rest) foods (slot_to_remove, highest) =
     (let fp = food_power (foods s) in
      if foods s \<noteq> None \<and> fp > highest then highest_food_loop rest foods (Some s, fp)
      else highest_food_loop rest foods (slot_to_remove, highest))"

definition remove_highest_food :: "(slot \<Rightarrow> food option) \<Rightarrow> bool \<times> (slot \<Rightarrow> food option)" where
  "remove_highest_food foods =
     (case fst (highest_food_loop slots foods (None, - 1.0)) of
        Some slot_to_remove \<Rightarrow> (True, foods(slot_to_remove := None))
      | None \<Rightarrow> (False, foods))"

definition add_missing_food ::
  "(slot \<Rightarrow> animal) \<Rightarrow> (slot \<Rightarrow> food option) \<Rightarrow> rng
     \<Rightarrow> error + (bool \<times> (slot \<Rightarrow> food option) \<times> rng)"
where
  "add_missing_food animals foods g =
     (let empty_slots = filter (\<lambda>s. foods s = None) slots in
      if empty_slots = [] then Inr (False, foods, g)
      else
        (case random_choice empty_slots g of
           Inl e \<Rightarrow> Inl e
         | Inr (s, g1) \<Rightarrow>
             (case random_enemy_food (animals s) g1 of
                Inl e \<Rightarrow> Inl e
              | Inr (fo, g2) \<Rightarrow> Inr (fo \<noteq> None, foods(s := fo), g2))))"

record enemy_team =
  animals :: "slot \<Rightarrow> animal"
  foods :: "slot \<Rightarrow> food option"
  mutations :: "slot \<Rightarrow> mutation"

definition team_power :: "enemy_team \<Rightarrow> real" where
  "team_power t = calculate_team_power (animals t) (foods t) (mutations t)"

text \<open>
  The re-roll at the end of the body of the first loop of \<^verbatim>\<open>adjust_enemy_team\<close>
  (lines 1071-1074): \<open>over_max\<close> is \<^verbatim>\<open>current_power > target_max\<close>.
\<close>

definition reroll_slot :: "enemy_team \<Rightarrow> int list \<Rightarrow> bool \<Rightarrow> rng \<Rightarrow> error + (enemy_team \<times> rng)" where
  "reroll_slot t allowed_indices over_max g =
     (case random_choice slots g of
        Inl e \<Rightarrow> Inl e
      | Inr (s, g1) \<Rightarrow>
          (case random_animal_by_rarity_and_role allowed_indices (role (animals t s)) g1 of
             Inl e \<Rightarrow> Inl e
           | Inr (a, g2) \<Rightarrow>
               if over_max then
                 Inr (t\<lparr>animals := (animals t)(s := a), foods := (foods t)(s := None),
                         mutations := (mutations t)(s := MutNone)\<rparr>, g2)
               else
                 (case random_enemy_food a g2 of
                    Inl e \<Rightarrow> Inl e
                  | Inr (fo, g3) \<Rightarrow>
                      let (m, g4) = random_enemy_mutation g3 in
                      Inr (t\<lparr>animals := (animals t)(s := a), foods := (foods t)(s := fo),
                              mutations := (mutations t)(s := m)\<rparr>, g4))))"

text \<open>
  The pinned re-roll of the final pass (lines 1090-1093 and 1099-1102).
\<close>

definition reroll_pinned ::
  "enemy_team \<Rightarrow> int \<Rightarrow> food option \<Rightarrow> mutation \<Rightarrow> rng \<Rightarrow> error + (enemy_team \<times> rng)"
where
  "reroll_pinned t pinned_index fo m g =
     (case random_choice slots g of
        Inl e \<Rightarrow> Inl e
      | Inr (s, g1) \<Rightarrow>
          (case random_animal_by_rarity_and_role [pinned_index] (role (animals t s)) g1 of
             Inl e \<Rightarrow> Inl e
           | Inr (a, g2) \<Rightarrow>
               Inr (t\<lparr>animals := (animals t)(s := a), foods := (foods t)(s := fo),
                       mutations := (mutations t)(s := m)\<rparr>, g2)))"

text \<open>
  One pass through the body of a repair loop after the window test failed: the two
  cheaper repairs first, each ending the iteration (\<^verbatim>\<open>continue\<close>) when it succeeds, then
  the re-roll \<open>fallback\<close> of the loop. \<open>adjust_step\<close> is the body of the first loop,
  \<open>enforce_step\<close> the body of the final pass.
\<close>

definition repair_step ::
  "(enemy_team \<Rightarrow> bool \<Rightarrow> rng \<Rightarrow> error + (enemy_team \<times> rng))
     \<Rightarrow> enemy_team \<Rightarrow> real \<Rightarrow> real \<Rightarrow> rng \<Rightarrow> error + (enemy_team \<times> rng)"
where
  "repair_step fallback t current_power target_max g =
     (if current_power > target_max then
        (case remove_highest_food (foods t) of
           (True, foods') \<Rightarrow> Inr (t\<lparr>foods := foods'\<rparr>, g)
         | (False, foods') \<Rightarrow>
             (case downgrade_mutation (mutations t) of
                (True, mutations') \<Rightarrow> Inr (t\<lparr>mutations := mutations'\<rparr>, g)
              | (False, mutations') \<Rightarrow> fallback t True g))
      else
        (case add_missing_food (animals t) (foods t) g of
           Inl e \<Rightarrow> Inl e
         | Inr (True, foods', g1) \<Rightarrow> Inr (t\<lparr>foods := foods'\<rparr>, g1)
         | Inr (False, foods', g1) \<Rightarrow>
             (case upgrade_mutation (mutations t) of
                (True, mutations') \<Rightarrow> Inr (t\<lparr>foods := foods', mutations := mutations'\<rparr>, g1)
              | (False, mutations') \<Rightarrow> fallback (t\<lparr>foods := foods'\<rparr>) False g1)))"

definition adjust_step ::
  "int list \<Rightarrow> enemy_team \<Rightarrow> real \<Rightarrow> real \<Rightarrow> rng \<Rightarrow> error + (enemy_team \<times> rng)"
where
  "adjust_step allowed_indices =
     repair_step (\<lambda>t over_max g. reroll_slot t allowed_indices over_max g)"

text \<open>\<^verbatim>\<open>max(FOODS.values(), key=food_power)\<close>: the first item of the greatest power.\<close>

fun max_by :: "('a \<Rightarrow> real) \<Rightarrow> 'a \<Rightarrow> 'a list \<Rightarrow> 'a" where
  "max_by key best [] = best"
| "max_by key best (x # xs) = max_by key (if key x > key best then x else best) xs"

definition strongest_food :: food where
  "strongest_food = max_by (\<lambda>f. food_power (Some f)) (hd FOODS) (tl FOODS)"

definition enforce_step ::
  "int \<Rightarrow> int \<Rightarrow> enemy_team \<Rightarrow> real \<Rightarrow> real \<Rightarrow> rng \<Rightarrow> error + (enemy_team \<times> rng)"
where
  "enforce_step weakest_index strongest_index =
     repair_step (\<lambda>t over_max g.
       if over_max then reroll_pinned t weakest_index None MutNone g
       else reroll_pinned t strongest_index (Some strongest_food) (last MUTATION_STRENGTH_ORDER) g)"

text \<open>
  The two loops of \<^verbatim>\<open>adjust_enemy_team\<close>. The first returns from the function when the
  power is in the window (\<open>Inr (Some power, ...)\<close>) and falls through after 350 passes
  (\<open>Inr (None, ...)\<close>); the final pass breaks out when the power is in the window or
  after 200 passes.
\<close>

fun adjust_loop ::
  "nat \<Rightarrow> int list \<Rightarrow> real \<Rightarrow> real \<Rightarrow> enemy_team \<Rightarrow> rng
     \<Rightarrow> error + (real option \<times> enemy_team \<times> rng)"
where
  "adjust_loop 0 allowed_indices target_min target_max t g = Inr (None, t, g)"
| "adjust_loop (Suc n) allowed_indices target_min target_max t g =
     (let current_power = team_power t in
      if target_min \<le> current_power \<and> current_power \<le> target_max then Inr (Some current_power, t, g)
      else
        (case adjust_step allowed_indices t current_power target_max g of
           Inl e \<Rightarrow> Inl e
         | Inr (t', g') \<Rightarrow> adjust_loop n allowed_indices target_min target_max t' g'))"

fun enforce_loop ::
  "nat \<Rightarrow> int \<Rightarrow> int \<Rightarrow> real \<Rightarrow> real \<Rightarrow> enemy_team \<Rightarrow> rng \<Rightarrow> error + (enemy_team \<times> rng)"
where
  "enforce_loop 0 weakest_index strongest_index target_min target_max t g = Inr (t, g)"
| "enforce_loop (Suc n) weakest_index strongest_index target_min target_max t g =
     (let current_power = team_power t in
      if target_min \<le> current_power \<and> current_power \<le> target_max then Inr (t, g)
      else
        (case enforce_step weakest_index strongest_index t current_power target_max g of
           Inl e \<Rightarrow> Inl e
         | Inr (t', g') \<Rightarrow> enforce_loop n weakest_index strongest_index target_min target_max t' g'))"

definition adjust_enemy_team ::
  "enemy_team \<Rightarrow> int list \<Rightarrow> real \<Rightarrow> real \<Rightarrow> rng \<Rightarrow> error + (real \<times> enemy_team \<times> rng)"
where
  "adjust_enemy_team t allowed_indices target_min target_max g =
     (case adjust_loop 350 allowed_indices target_min target_max t g of
        Inl e \<Rightarrow> Inl e
      | Inr (Some current_power, t1, g1) \<Rightarrow> Inr (current_power, t1, g1)
      | Inr (None, t1, g1) \<Rightarrow>
          if allowed_indices = [] then Inl ValueError
          else
            let weakest_index = Min (set allowed_indices);
                strongest_index = Max (set allowed_indices)
            in (case enforce_loop 200 weakest_index strongest_index target_min target_max t1 g1 of
                  Inl e \<Rightarrow> Inl e
                | Inr (t2, g2) \<Rightarrow> Inr (team_power t2, t2, g2)))"

text \<open>
  \<^verbatim>\<open>enemy_signature\<close>: the three \<^verbatim>\<open>animal_id:mutation\<close> parts joined by \<^verbatim>\<open>|\<close>.
\<close>

fun join_with :: "string \<Rightarrow> string list \<Rightarrow> string" where
  "join_with sep [] = []"
| "join_with sep [x] = x"
| "join_with sep (x # y # ys) = x @ sep @ join_with sep (y # ys)"

definition enemy_signature :: "(slot \<Rightarrow> animal) \<Rightarrow> (slot \<Rightarrow> mutation) \<Rightarrow> string" where
  "enemy_signature tm ms =
     join_with ''|'' (map (\<lambda>s. animal_id (tm s) @ '':'' @ mutation_key (ms s)) slots)"

text \<open>
  Lines 2530-2537 of \<^verbatim>\<open>battle\<close>: the rarity indices the enemy may draw from.
\<close>

definition allowed_indices_of :: "(slot \<Rightarrow> animal) \<Rightarrow> int list" where
  "allowed_indices_of player_animals =
     (let avg_index = py_round (of_int (sum_list (map (\<lambda>s. rarity_index (player_animals s)) slots)) / 3)
      in filter (\<lambda>idx. 0 \<le> idx \<and> idx \<le> 6) [avg_index - 1, avg_index, avg_index + 1])"

text \<open>
  One attempt of the sampling loop (lines 2597-2603): a unit per slot for the slot's
  role, then an item draw per slot, then a mutation draw per slot.
\<close>

definition draw_enemy :: "int list \<Rightarrow> rng \<Rightarrow> error + (enemy_team \<times> rng)" where
  "draw_enemy allowed_indices g =
     (case random_animal_by_rarity_and_role allowed_indices TANK g of
        Inl e \<Rightarrow> Inl e
      | Inr (a1, g1) \<Rightarrow>
     (case random_animal_by_rarity_and_role allowed_indices ATTACK g1 of
        Inl e \<Rightarrow> Inl e
      | Inr (a2, g2) \<Rightarrow>
     (case random_animal_by_rarity_and_role allowed_indices SUPPORT g2 of
        Inl e \<Rightarrow> Inl e
      | Inr (a3, g3) \<Rightarrow>
     (case random_enemy_food a1 g3 of
        Inl e \<Rightarrow> Inl e
      | Inr (f1, g4) \<Rightarrow>
     (case random_enemy_food a2 g4 of
        Inl e \<Rightarrow> Inl e
      | Inr (f2, g5) \<Rightarrow>
     (case random_enemy_food a3 g5 of
        Inl e \<Rightarrow> Inl e
      | Inr (f3, g6) \<Rightarrow>
          let (m1, g7) = random_enemy_mutation g6;
              (m2, g8) = random_enemy_mutation g7;
              (m3, g9) = random_enemy_mutation g8
          in Inr (\<lparr>animals = (\<lambda>s. case s of Slot1 \<Rightarrow> a1 | Slot2 \<Rightarrow> a2 | Slot3 \<Rightarrow> a3),
                   foods = (\<lambda>s. case s of Slot1 \<Rightarrow> f1 | Slot2 \<Rightarrow> f2 | Slot3 \<Rightarrow> f3),
                   mutations = (\<lambda>s. case s of Slot1 \<Rightarrow> m1 | Slot2 \<Rightarrow> m2 | Slot3 \<Rightarrow> m3)\<rparr>,
                  g9)))))))"

text \<open>
  The state of the sampling loop: \<^verbatim>\<open>best_candidate\<close>, \<^verbatim>\<open>best_delta\<close> (\<open>None\<close> is the
  initial \<^verbatim>\<open>float("inf")\<close>), \<^verbatim>\<open>best_in_range\<close> and \<^verbatim>\<open>best_in_range_not_same\<close>. A
  candidate is the team with its power and signature.
\<close>

type_synonym candidate = "enemy_team \<times> real \<times> string"

record sampling =
  best_candidate :: "candidate option"
  best_delta :: "real option"
  best_in_range :: "candidate option"
  best_in_range_not_same :: "candidate option"

fun sample_loop ::
  "nat \<Rightarrow> int list \<Rightarrow> real \<Rightarrow> real \<Rightarrow> string option \<Rightarrow> sampling \<Rightarrow> rng
     \<Rightarrow> error + (sampling \<times> rng)"
where
  "sample_loop 0 allowed_indices target_min target_max last_signature st g = Inr (st, g)"
| "sample_loop (Suc n) allowed_indices target_min target_max last_signature st g =
     (case draw_enemy allowed_indices g of
        Inl e \<Rightarrow> Inl e
      | Inr (t, g1) \<Rightarrow>
          let enemy_power = team_power t;
              signature = enemy_signature (animals t) (mutations t);
              cand = (t, enemy_power, signature);
              delta = (if enemy_power < target_min then target_min - enemy_power
                       else if enemy_power > target_max then enemy_power - target_max
                       else 0.0);
              in_range = (target_min \<le> enemy_power \<and> enemy_power \<le> target_max)
          in if in_range \<and> Some signature \<noteq> last_signature then
               Inr (st\<lparr>best_in_range_not_same := Some cand\<rparr>, g1)
             else
               let st1 = (if in_range \<and> best_in_range st = None
                          then st\<lparr>best_in_range := Some cand\<rparr> else st);
                   st2 = (if (case best_delta st1 of None \<Rightarrow> True | Some d \<Rightarrow> delta < d)
                          then st1\<lparr>best_delta := Some delta, best_candidate := Some cand\<rparr>
                          else st1)
               in sample_loop n allowed_indices target_min target_max last_signature st2 g1)"

datatype enemy_result =
    BattleSetupFailed
  | BattleFailed error
  | EnemyReady enemy_team real string rng

text \<open>
  Lines 2624-2655: the choice among the three candidates, the repair, and the second
  repair when the first left the power outside the window. An exception anywhere in
  \<^verbatim>\<open>battle\<close> ends in the handler that reports "Battle Failed".
\<close>

definition select_and_adjust ::
  "sampling \<Rightarrow> int list \<Rightarrow> real \<Rightarrow> real \<Rightarrow> rng \<Rightarrow> enemy_result"
where
  "select_and_adjust st allowed_indices target_min target_max g =
     (let final_choice =
            (case best_in_range_not_same st of
               Some c \<Rightarrow> Some c
             | None \<Rightarrow> (case best_in_range st of Some c \<Rightarrow> Some c | None \<Rightarrow> best_candidate st))
      in case final_choice of
           None \<Rightarrow> BattleSetupFailed
         | Some (chosen, p0, sig0) \<Rightarrow>
             (case adjust_enemy_team chosen allowed_indices target_min target_max g of
                Inl e \<Rightarrow> BattleFailed e
              | Inr (p1, t1, g1) \<Rightarrow>
                  let last_enemy_signature = enemy_signature (animals t1) (mutations t1);
                      enemy_final_power = team_power t1
                  in if enemy_final_power < target_min \<or> enemy_final_power > target_max then
                       (case adjust_enemy_team t1 allowed_indices target_min target_max g1 of
                          Inl e \<Rightarrow> BattleFailed e
                        | Inr (p2, t2, g2) \<Rightarrow> EnemyReady t2 (team_power t2) last_enemy_signature g2)
                     else EnemyReady t1 (team_power t1) last_enemy_signature g1))"

definition synthesize_enemy ::
  "(slot \<Rightarrow> animal) \<Rightarrow> (slot \<Rightarrow> food option) \<Rightarrow> (slot \<Rightarrow> mutation) \<Rightarrow> string option \<Rightarrow> rng
     \<Rightarrow> enemy_result"
where
  "synthesize_enemy player_animals player_foods player_mutations last_signature g =
     (let allowed_indices = allowed_indices_of player_animals;
          player_final_power = calculate_team_power player_animals player_foods player_mutations;
          (target_min, target_max) = target_window player_foods player_mutations player_final_power
      in case sample_loop 300 allowed_indices target_min target_max last_signature
                \<lparr>best_candidate = None, best_delta = None, best_in_range = None,
                 best_in_range_not_same = None\<rparr> g of
           Inl e \<Rightarrow> BattleFailed e
         | Inr (st, g1) \<Rightarrow> select_and_adjust st allowed_indices target_min target_max g1)"

section \<open>Example inputs\<close>

definition rng_cons :: "real \<times> nat \<Rightarrow> rng \<Rightarrow> rng" where
  "rng_cons c g = (\<lambda>n. case n of 0 \<Rightarrow> c | Suc m \<Rightarrow> g m)"

fun rng_prepend :: "(real \<times> nat) list \<Rightarrow> rng \<Rightarrow> rng" where
  "rng_prepend [] g = g"
| "rng_prepend (c # cs) g = rng_cons c (rng_prepend cs g)"

text \<open>
  A generator that repeats three draws for ever: slot 3 for \<^verbatim>\<open>random.choice\<close> among the
  empty slots, 0.1 for the item roll, and the sixth candidate item.
\<close>

definition repair_rng :: rng where
  "repair_rng = (\<lambda>n. [(0.1, 2), (0.1, 0), (0.1, 5)] ! (n mod 3))"

text \<open>
  The nine draws of one sampling attempt (three units, three item rolls that give no
  item, the mutation rolls none, none, rainbow), 300 times, then \<open>repair_rng\<close>.
\<close>

definition sample_draws :: "(real \<times> nat) list" where
  "sample_draws =
     [(0.5, 0), (0.5, 0), (0.5, 1), (0.5, 0), (0.5, 0), (0.5, 0), (0.5, 0), (0.5, 0), (0.99, 0)]"

definition unlucky_rng :: rng where
  "unlucky_rng = (rng_prepend sample_draws ^^ 300) repair_rng"

definition trex :: animal where
  "trex = mk_animal HIDDEN (RARITY_INDEX HIDDEN) TANK ''trex'' 25 7 10"

definition dragon :: animal where
  "dragon = mk_animal HIDDEN (RARITY_INDEX HIDDEN) ATTACK ''dragon'' 16 13 5"

definition unicorn :: animal where
  "unicorn = mk_animal HIDDEN (RARITY_INDEX HIDDEN) SUPPORT ''unicorn'' 14 6 8"

definition butterfly :: animal where
  "butterfly = mk_animal SPECIAL (RARITY_INDEX SPECIAL) SUPPORT ''butterfly'' 10 4 6"

definition dragons_feast :: food where
  "dragons_feast = mk_food ''dragons_feast'' HIDDEN 1500 16 16 12"

definition on_slots :: "'a \<Rightarrow> 'a \<Rightarrow> 'a \<Rightarrow> slot \<Rightarrow> 'a" where
  "on_slots x y z = (\<lambda>s. case s of Slot1 \<Rightarrow> x | Slot2 \<Rightarrow> y | Slot3 \<Rightarrow> z)"

definition stuck_team :: enemy_team where
  "stuck_team = \<lparr>animals = on_slots trex dragon butterfly, foods = on_slots None None None,
                 mutations = on_slots MutNone MutNone Rainbow\<rparr>"

definition fed_team :: enemy_team where
  "fed_team = \<lparr>animals = on_slots trex dragon butterfly,
               foods = on_slots None None (Some dragons_feast),
               mutations = on_slots MutNone MutNone Rainbow\<rparr>"

definition strong_player_animals :: "slot \<Rightarrow> animal" where
  "strong_player_animals = on_slots trex dragon unicorn"

definition strong_player_foods :: "slot \<Rightarrow> food option" where
  "strong_player_foods = on_slots (Some dragons_feast) (Some dragons_feast) (Some dragons_feast)"

definition strong_player_mutations :: "slot \<Rightarrow> mutation" where
  "strong_player_mutations = on_slots MutNone MutNone MutNone"

definition stuck_min :: real where
  "stuck_min = 227.84"

definition stuck_max :: real where
  "stuck_max = 398.72"

definition stuck_signature :: string where
  "stuck_signature = ''trex:none|dragon:none|butterfly:rainbow''"

definition stuck_sampling :: sampling where
  "stuck_sampling =
     \<lparr>best_candidate = Some (stuck_team, 205, stuck_signature), best_delta = Some (stuck_min - 205),
      best_in_range = None, best_in_range_not_same = None\<rparr>"

text \<open>The spec's words for the slots and tiers the repairs pick.\<close>

definition heaviest_item_slot :: "(slot \<Rightarrow> food option) \<Rightarrow> slot option" where
  "heaviest_item_slot fs =
     find (\<lambda>s. fs s \<noteq> None
             \<and> list_all (\<lambda>s'. fs s' = None \<or> food_power (fs s') \<le> food_power (fs s))
                  [Slot1, Slot2, Slot3])
       [Slot1, Slot2, Slot3]"

definition top_mutation_slot :: "(slot \<Rightarrow> mutation) \<Rightarrow> slot option" where
  "top_mutation_slot ms =
     find (\<lambda>s. ms s \<noteq> MutNone
             \<and> list_all (\<lambda>s'. mutation_multiplier_value (ms s') \<le> mutation_multiplier_value (ms s))
                  [Slot1, Slot2, Slot3])
       [Slot1, Slot2, Slot3]"

definition low_mutation_slot :: "(slot \<Rightarrow> mutation) \<Rightarrow> slot option" where
  "low_mutation_slot ms =
     find (\<lambda>s. ms s \<noteq> Rainbow
             \<and> list_all (\<lambda>s'. mutation_multiplier_value (ms s) \<le> mutation_multiplier_value (ms s'))
                  [Slot1, Slot2, Slot3])
       [Slot1, Slot2, Slot3]"

fun tier_below :: "mutation \<Rightarrow> mutation" where
  "tier_below MutNone = MutNone"
| "tier_below Golden = MutNone"
| "tier_below Diamond = Golden"
| "tier_below Emerald = Diamond"
| "tier_below Rainbow = Emerald"

fun tier_above :: "mutation \<Rightarrow> mutation" where
  "tier_above MutNone = Golden"
| "tier_above Golden = Diamond"
| "tier_above Diamond = Emerald"
| "tier_above Emerald = Rainbow"
| "tier_above Rainbow = Rainbow"

definition catalog_items :: "(slot \<Rightarrow> food option) \<Rightarrow> bool" where
  "catalog_items fs = list_all (\<lambda>s. case fs s of None \<Rightarrow> True | Some f \<Rightarrow> f \<in> set FOODS) [Slot1, Slot2, Slot3]"

definition hippo :: animal where
  "hippo = mk_animal EPIC (RARITY_INDEX EPIC) TANK ''hippo'' 19 4 8"

definition elephant :: animal where
  "elephant = mk_animal EPIC (RARITY_INDEX EPIC) TANK ''elephant'' 18 4 8"

definition wolf :: animal where
  "wolf = mk_animal RARE (RARITY_INDEX RARE) ATTACK ''wolf'' 9 9 3"

definition swan_epic :: animal where
  "swan_epic = mk_animal EPIC (RARITY_INDEX EPIC) SUPPORT ''swan_epic'' 11 4 7"

definition octopus :: animal where
  "octopus = mk_animal SPECIAL (RARITY_INDEX SPECIAL) SUPPORT ''octopus'' 12 5 7"

definition goat :: animal where
  "goat = mk_animal COMMON (RARITY_INDEX COMMON) TANK ''goat'' 8 4 3"

definition chicken :: animal where
  "chicken = mk_animal COMMON (RARITY_INDEX COMMON) ATTACK ''chicken'' 7 5 1"

text \<open>
  An enemy above the window of the player goat, chicken, butterfly (no item, no
  mutation), with nothing to remove or downgrade; and an enemy below the window of the
  player trex, dragon, unicorn (all rainbow, all with the dragon's feast), with every
  slot already rainbow.
\<close>

definition over_team :: enemy_team where
  "over_team = \<lparr>animals = on_slots hippo wolf swan_epic, foods = on_slots None None None,
                mutations = on_slots MutNone MutNone MutNone\<rparr>"

definition under_team :: enemy_team where
  "under_team = \<lparr>animals = on_slots trex dragon butterfly, foods = on_slots None None None,
                 mutations = on_slots Rainbow Rainbow Rainbow\<rparr>"

definition over_rng :: rng where
  "over_rng = rng_prepend [(0.5, 0), (0.5, 5)] repair_rng"

definition under_rng :: rng where
  "under_rng = rng_prepend [(0.5, 0), (0.5, 0), (0.5, 2), (0.5, 0), (0.5, 0), (0.5, 0)] repair_rng"

definition weak_player_animals :: "slot \<Rightarrow> animal" where
  "weak_player_animals = on_slots goat chicken butterfly"

definition rainbow_player_mutations :: "slot \<Rightarrow> mutation" where
  "rainbow_player_mutations = on_slots Rainbow Rainbow Rainbow"

definition rerolled_over_team :: enemy_team where
  "rerolled_over_team = \<lparr>animals = on_slots elephant wolf swan_epic, foods = on_slots None None None,
                         mutations = on_slots MutNone MutNone MutNone\<rparr>"

definition rerolled_under_team :: enemy_team where
  "rerolled_under_team = \<lparr>animals = on_slots trex dragon octopus, foods = on_slots None None None,
                          mutations = on_slots Rainbow Rainbow MutNone\<rparr>"


section \<open>Properties\<close>

text \<open>
  Claim C1. A unit's power is \<open>hp * 1.0 + atk * 1.5 + defense * 1.2\<close>; an item's power is
  the same weighted sum over its bonuses and 0 when no item is equipped; a slot's
  effective power is (unit power + item power) times the mutation multiplier, which is
  1.0, 1.25, 1.5, 2.0, 5.0 for none, golden, diamond, emerald, rainbow; and the power of
  a team is exactly the sum of the effective power of its three slots.
\<close>

theorem C1_power_model:
  "power_of a = real_of_int (hp a) + 3 / 2 * real_of_int (atk a) + 6 / 5 * real_of_int (defense a)
   \<and> food_power None = 0
   \<and> food_power (Some f) =
       real_of_int (hp_bonus f) + 3 / 2 * real_of_int (atk_bonus f) + 6 / 5 * real_of_int (def_bonus f)
   \<and> effective_power a fo (mutation_multiplier_value m) =
       (power_of a + food_power fo) * mutation_multiplier_value m
   \<and> map mutation_multiplier_value [MutNone, Golden, Diamond, Emerald, Rainbow] =
       [1, 5 / 4, 3 / 2, 2, 5]
   \<and> calculate_team_power unit_of item_of tier_of =
       effective_power (unit_of Slot1) (item_of Slot1) (mutation_multiplier_value (tier_of Slot1))
       + effective_power (unit_of Slot2) (item_of Slot2) (mutation_multiplier_value (tier_of Slot2))
       + effective_power (unit_of Slot3) (item_of Slot3) (mutation_multiplier_value (tier_of Slot3))"
  by (simp add: power_of_def food_power_def effective_power_def calculate_team_power_def slots_def)

lemma count_foods_items: "count_foods slots fs = int (equipped_items fs)"
  by (simp add: slots_def equipped_items_def)

lemma stage_spec: "mutation_stage m = int (spec_stage m)"
  by (cases m) simp_all

lemma scan_mutations_slots:
  "scan_mutations slots ms (0, 0) = (int (mutated_slots ms), int (highest_spec_stage ms))"
  by (auto simp: slots_def mutated_slots_def highest_spec_stage_def stage_spec max_def)

lemma mutated_slots_le: "mutated_slots ms \<le> 3"
  by (simp add: mutated_slots_def)

lemma base_range_spec:
  "m \<le> 3 \<Longrightarrow> base_range (int m) (int i) = spec_base_percent m i"
  by (auto simp: base_range_def spec_base_percent_def)

text \<open>
  Claim C2. The base percentage interval of the difficulty window is read from the table
  keyed on the number of mutated slots (0, 1 or 2, 3) and of equipped items (0, 1, 2 or
  more); it is widened on both sides by 2.5 points per highest mutation stage (0 for none
  and golden, 1 diamond, 2 emerald, 3 rainbow), each percentage is floored at 0, and the
  bounds are the player's power times the two percentages.
\<close>

theorem C2_difficulty_window:
  "target_window player_foods player_mutations player_final_power =
     (let (lo, hi) = spec_base_percent (mutated_slots player_mutations) (equipped_items player_foods);
          widen = 2.5 * real (highest_spec_stage player_mutations)
      in (player_final_power * (max 0 (lo - widen) / 100),
          player_final_power * (max 0 (hi + widen) / 100)))"
  by (simp add: target_window_def count_foods_items scan_mutations_slots
      base_range_spec [OF mutated_slots_le] Let_def split: prod.split)

text \<open>
  The spec's example: power 100, no item, no mutated slot gives the window [80, 150].
\<close>

theorem C2_window_example:
  "target_window (\<lambda>s. None) (\<lambda>s. MutNone) 100 = (80, 150)"
  using C2_difficulty_window [of "\<lambda>s. None" "\<lambda>s. MutNone" 100]
  by (simp add: spec_base_percent_def mutated_slots_def equipped_items_def highest_spec_stage_def)

lemma normalize_canonical: "normalize_mutation_key (mutation_key m) = Inr m"
  by (cases m) (simp_all add: normalize_mutation_key_def py_strip_def py_lower_def py_lower_char_def py_isspace_def MUTATION_ALIASES_def)

lemma reserved_loop_ge: "tot \<le> reserved_loop ss tm aid m tot"
proof (induction ss arbitrary: tot)
  case Nil
  show ?case by simp
next
  case (Cons s ss)
  have "tot \<le> reserved_loop ss tm aid m tot" and "tot + 1 \<le> reserved_loop ss tm aid m (tot + 1)"
    using Cons.IH by blast+
  then show ?case by (auto split: option.split)
qed

lemma reserved_count_nonneg: "0 \<le> reserved_count tm aid m"
  unfolding reserved_count_def by (rule reserved_loop_ge)

lemma sellable_le_owned: "sellable_amount p aid m \<le> max 0 (get_owned_count p aid m)"
  using reserved_count_nonneg [of "team p" aid m]
  by (simp add: sellable_amount_def Let_def)

lemma owned_nonneg: "0 \<le> get_owned_count p aid m"
  by (simp add: get_owned_count_def split: option.split)

lemma owned_rebuilt: "rebuilt_bucket (zoo p aid) m = get_owned_count p aid m"
  by (simp add: rebuilt_bucket_def get_owned_count_def default_mutation_counts_def split: option.split)

lemma remove_animal_enough:
  assumes "4 \<le> get_owned_count p aid m"
  shows "fst (remove_animal p aid m 4) = 4"
    and "get_owned_count (snd (remove_animal p aid m 4)) aid' m' =
           (if aid' = aid \<and> m' = m then get_owned_count p aid m - 4 else get_owned_count p aid' m')"
    and "team (snd (remove_animal p aid m 4)) = team p"
  using assms owned_nonneg [of p aid m']
  by (auto simp: remove_animal_def Let_def owned_rebuilt get_owned_count_def [of "p\<lparr>zoo := _\<rparr>"]
      simp flip: get_owned_count_def split: option.split)

lemma add_animal_count:
  assumes "1 \<le> qty"
  shows "get_owned_count (add_animal p aid m qty) aid' m' =
           (if aid' = aid \<and> m' = m then get_owned_count p aid m + qty else get_owned_count p aid' m')"
    and "team (add_animal p aid m qty) = team p"
  using assms owned_nonneg [of p aid m'] owned_nonneg [of p aid m]
  by (auto simp: add_animal_def Let_def owned_rebuilt get_owned_count_def [of "p\<lparr>zoo := _\<rparr>"]
      simp flip: get_owned_count_def split: option.split)

lemma roll_fusion_result_tiers:
  assumes "roll_fusion_result mk u = Inr (rm, qty)"
  shows "1 \<le> qty" and "mutation_rank mk \<le> mutation_rank rm"
    and "rm = mk \<longrightarrow> mk = Emerald \<and> qty = 3" and "mk \<noteq> Rainbow"
  using assms by (cases mk; auto simp: roll_fusion_result_def Let_def split: if_splits)+

lemma roll_fusion_result_ok:
  "mk \<noteq> Rainbow \<Longrightarrow> \<exists>rm qty. roll_fusion_result mk u = Inr (rm, qty)"
  by (cases mk) (auto simp: roll_fusion_result_def Let_def)

text \<open>
  Claim C3. With the roll \<open>r\<close> (the random float times 100): from none, golden below 50,
  diamond from 50 below 75, emerald from 75 below 95, rainbow from 95; from golden,
  diamond below 50, emerald from 50 below 90, rainbow from 90; from diamond, emerald
  below 75, rainbow from 75; from emerald, three emerald below 50, one rainbow from 50;
  the roll for rainbow raises, and the fuse command rejects rainbow with no change.
\<close>

theorem C3_fusion_table:
  "(r < 50 \<longrightarrow> roll_fusion_result MutNone (r / 100) = Inr (Golden, 1))
   \<and> (50 \<le> r \<and> r < 75 \<longrightarrow> roll_fusion_result MutNone (r / 100) = Inr (Diamond, 1))
   \<and> (75 \<le> r \<and> r < 95 \<longrightarrow> roll_fusion_result MutNone (r / 100) = Inr (Emerald, 1))
   \<and> (95 \<le> r \<longrightarrow> roll_fusion_result MutNone (r / 100) = Inr (Rainbow, 1))
   \<and> (r < 50 \<longrightarrow> roll_fusion_result Golden (r / 100) = Inr (Diamond, 1))
   \<and> (50 \<le> r \<and> r < 90 \<longrightarrow> roll_fusion_result Golden (r / 100) = Inr (Emerald, 1))
   \<and> (90 \<le> r \<longrightarrow> roll_fusion_result Golden (r / 100) = Inr (Rainbow, 1))
   \<and> (r < 75 \<longrightarrow> roll_fusion_result Diamond (r / 100) = Inr (Emerald, 1))
   \<and> (75 \<le> r \<longrightarrow> roll_fusion_result Diamond (r / 100) = Inr (Rainbow, 1))
   \<and> (r < 50 \<longrightarrow> roll_fusion_result Emerald (r / 100) = Inr (Emerald, 3))
   \<and> (50 \<le> r \<longrightarrow> roll_fusion_result Emerald (r / 100) = Inr (Rainbow, 1))
   \<and> roll_fusion_result Rainbow (r / 100) = Inl ValueError
   \<and> (normalize_mutation_key mutation_text = Inr Rainbow \<longrightarrow>
        fuse p owned_counts (Some a) mutation_text (r / 100) = (RainbowCannotFuse, p, owned_counts))"
  by (simp add: roll_fusion_result_def fuse_def)

text \<open>
  The table at one roll of every interval, among them the spec's rolls 40 (one golden)
  and 60 (one diamond) from none.
\<close>

theorem C3_fusion_examples:
  "roll_fusion_result MutNone (40 / 100) = Inr (Golden, 1)
   \<and> roll_fusion_result MutNone (60 / 100) = Inr (Diamond, 1)
   \<and> roll_fusion_result MutNone (80 / 100) = Inr (Emerald, 1)
   \<and> roll_fusion_result MutNone (97 / 100) = Inr (Rainbow, 1)
   \<and> roll_fusion_result Golden (40 / 100) = Inr (Diamond, 1)
   \<and> roll_fusion_result Golden (60 / 100) = Inr (Emerald, 1)
   \<and> roll_fusion_result Golden (97 / 100) = Inr (Rainbow, 1)
   \<and> roll_fusion_result Diamond (40 / 100) = Inr (Emerald, 1)
   \<and> roll_fusion_result Diamond (80 / 100) = Inr (Rainbow, 1)
   \<and> roll_fusion_result Emerald (40 / 100) = Inr (Emerald, 3)
   \<and> roll_fusion_result Emerald (60 / 100) = Inr (Rainbow, 1)
   \<and> fuse \<lparr>zoo = Map.empty, team = (\<lambda>s. None)\<rparr> Map.empty
        (Some \<lparr>animal_id = ''cow'', rarity = COMMON, rarity_index = 0, role = TANK,
               hp = 11, atk = 3, defense = 3\<rparr>) ''Rainbow'' (40 / 100)
      = (RainbowCannotFuse, \<lparr>zoo = Map.empty, team = (\<lambda>s. None)\<rparr>, Map.empty)"
proof -
  have n: "normalize_mutation_key ''Rainbow'' = Inr Rainbow"
    by (simp add: normalize_mutation_key_def py_strip_def py_lower_def py_lower_char_def
        py_isspace_def MUTATION_ALIASES_def)
  show ?thesis
    using C3_fusion_table [of 40 "''Rainbow''" "\<lparr>zoo = Map.empty, team = (\<lambda>s. None)\<rparr>" Map.empty
        "\<lparr>animal_id = ''cow'', rarity = COMMON, rarity_index = 0, role = TANK,
               hp = 11, atk = 3, defense = 3\<rparr>"]
      C3_fusion_table [of 60] C3_fusion_table [of 80] C3_fusion_table [of 97] n
    by simp
qed

text \<open>
  Claim C4. A fuse either is refused (unknown animal, invalid mutation, rainbow, fewer
  than 4 units left after the team's reservations) and leaves the profile and the global
  counts as they were, or at least 4 units were available, exactly 4 are removed first
  (the owned count of the source tier goes down by 4), and then the rolled quantity is
  credited to the rolled tier. Every other count and the team are unchanged, the
  quantity credited is at least 1, the rolled tier is never below the source tier, and
  it is the source tier only for emerald, with quantity 3. The replies "fusion failed"
  and a raised error, which would consume without crediting, never occur.
\<close>

theorem C4_fuse_atomic:
  assumes "fuse p owned_counts resolved mutation_text u = (reply, p', owned_counts')"
  shows "(reply \<in> refusals \<and> p' = p \<and> owned_counts' = owned_counts)
     \<or> (\<exists>a mk p1 rm qty.
          resolved = Some a \<and> normalize_mutation_key mutation_text = Inr mk
          \<and> 4 \<le> sellable_amount p (animal_id a) mk
          \<and> remove_animal p (animal_id a) mk 4 = (4, p1)
          \<and> get_owned_count p1 (animal_id a) mk = get_owned_count p (animal_id a) mk - 4
          \<and> roll_fusion_result mk u = Inr (rm, qty)
          \<and> reply = FusionComplete rm qty
          \<and> p' = add_animal p1 (animal_id a) rm qty
          \<and> get_owned_count p' (animal_id a) mk =
              get_owned_count p (animal_id a) mk - 4 + (if rm = mk then qty else 0)
          \<and> (rm \<noteq> mk \<longrightarrow>
               get_owned_count p' (animal_id a) rm = get_owned_count p (animal_id a) rm + qty)
          \<and> (\<forall>aid m. aid \<noteq> animal_id a \<or> (m \<noteq> mk \<and> m \<noteq> rm) \<longrightarrow>
               get_owned_count p' aid m = get_owned_count p aid m)
          \<and> team p' = team p
          \<and> 1 \<le> qty
          \<and> mutation_rank mk \<le> mutation_rank rm
          \<and> (rm = mk \<longrightarrow> mk = Emerald \<and> qty = 3))"
proof (cases resolved)
  case None
  with assms show ?thesis by (auto simp: fuse_def refusals_def)
next
  case (Some a)
  show ?thesis
  proof (cases "normalize_mutation_key mutation_text")
    case (Inl e)
    with assms Some show ?thesis by (auto simp: fuse_def refusals_def)
  next
    case (Inr mk)
    show ?thesis
    proof (cases "mk = Rainbow \<or> sellable_amount p (animal_id a) mk < 4")
      case True
      with assms Some Inr show ?thesis
        by (cases "mk = Rainbow") (auto simp: fuse_def refusals_def Let_def)
    next
      case False
      then have mk: "mk \<noteq> Rainbow" and avail: "4 \<le> sellable_amount p (animal_id a) mk"
        by auto
      have owned: "4 \<le> get_owned_count p (animal_id a) mk"
        using avail sellable_le_owned [of p "animal_id a" mk] by simp
      define p1 where "p1 = snd (remove_animal p (animal_id a) mk 4)"
      have rem: "remove_animal p (animal_id a) mk 4 = (4, p1)"
        using remove_animal_enough(1) [OF owned] by (simp add: p1_def prod_eq_iff)
      obtain rm qty where roll: "roll_fusion_result mk u = Inr (rm, qty)"
        using roll_fusion_result_ok [OF mk] by blast
      note tiers = roll_fusion_result_tiers [OF roll]
      have res: "reply = FusionComplete rm qty" "p' = add_animal p1 (animal_id a) rm qty"
        using assms Some Inr mk avail rem roll by (auto simp: fuse_def Let_def)
      have c1: "get_owned_count p1 aid m =
          (if aid = animal_id a \<and> m = mk then get_owned_count p (animal_id a) mk - 4
           else get_owned_count p aid m)" for aid m
        unfolding p1_def by (rule remove_animal_enough(2) [OF owned])
      have c2: "get_owned_count p' aid m =
          (if aid = animal_id a \<and> m = rm then get_owned_count p1 (animal_id a) rm + qty
           else get_owned_count p1 aid m)" for aid m
        unfolding res(2) by (rule add_animal_count(1) [OF tiers(1)])
      have tm: "team p' = team p"
        unfolding res(2) p1_def
        by (simp add: add_animal_count(2) [OF tiers(1)] remove_animal_enough(3) [OF owned])
      have k1: "get_owned_count p1 (animal_id a) mk = get_owned_count p (animal_id a) mk - 4"
        by (simp add: c1)
      have k2: "get_owned_count p' (animal_id a) mk =
          get_owned_count p (animal_id a) mk - 4 + (if rm = mk then qty else 0)"
        by (simp add: c1 c2)
      have k3: "rm \<noteq> mk \<longrightarrow>
          get_owned_count p' (animal_id a) rm = get_owned_count p (animal_id a) rm + qty"
        by (simp add: c1 c2)
      have k4: "\<forall>aid m. aid \<noteq> animal_id a \<or> (m \<noteq> mk \<and> m \<noteq> rm) \<longrightarrow>
          get_owned_count p' aid m = get_owned_count p aid m"
        by (simp add: c1 c2)
      have "resolved = Some a \<and> normalize_mutation_key mutation_text = Inr mk
          \<and> 4 \<le> sellable_amount p (animal_id a) mk
          \<and> remove_animal p (animal_id a) mk 4 = (4, p1)
          \<and> get_owned_count p1 (animal_id a) mk = get_owned_count p (animal_id a) mk - 4
          \<and> roll_fusion_result mk u = Inr (rm, qty)
          \<and> reply = FusionComplete rm qty
          \<and> p' = add_animal p1 (animal_id a) rm qty
          \<and> get_owned_count p' (animal_id a) mk =
              get_owned_count p (animal_id a) mk - 4 + (if rm = mk then qty else 0)
          \<and> (rm \<noteq> mk \<longrightarrow>
               get_owned_count p' (animal_id a) rm = get_owned_count p (animal_id a) rm + qty)
          \<and> (\<forall>aid m. aid \<noteq> animal_id a \<or> (m \<noteq> mk \<and> m \<noteq> rm) \<longrightarrow>
               get_owned_count p' aid m = get_owned_count p aid m)
          \<and> team p' = team p
          \<and> 1 \<le> qty
          \<and> mutation_rank mk \<le> mutation_rank rm
          \<and> (rm = mk \<longrightarrow> mk = Emerald \<and> qty = 3)"
        by (intro conjI Some Inr avail rem roll res tm tiers k1 k2 k3 k4)
      then show ?thesis by blast
    qed
  qed
qed

lemma first_alive_find: "first_alive h = find (\<lambda>t. 0 < h t) [Slot1, Slot2, Slot3]"
  by (simp add: first_alive_def slots_def)

lemma living_defense_sum:
  "living_defense h st = (\<Sum>d \<leftarrow> [Slot1, Slot2, Slot3]. if 0 < h d then snd (snd (st d)) else 0)"
  by (simp add: living_defense_def slots_def)

lemma spec_strike_dead: "find (\<lambda>t. 0 < h t) [Slot1, Slot2, Slot3] = None \<Longrightarrow> spec_strike s ah ast dst h = h"
  by (simp add: spec_strike_def)

lemma attack_loop_none_alive:
  "first_alive h = None \<Longrightarrow> attack_loop ss ah ast h dst = h"
  by (induction ss) simp_all

lemma attack_loop_step:
  "attack_loop (s # rest) ah ast h dst =
     (if first_alive h = None then h else attack_loop rest ah ast (spec_strike s ah ast dst h) dst)"
proof (cases "first_alive h")
  case None
  then show ?thesis by (simp add: attack_loop_none_alive del: attack_loop.simps)
next
  case (Some t)
  then show ?thesis
    by (simp add: spec_strike_def living_defense_sum Let_def flip: first_alive_find
        del: find.simps sum_list.Cons)
qed

text \<open>
  Claim C5. An attack phase is the three strikes of slot 1, slot 2 and slot 3 in this
  order. A strike by a slot with health above 0 hits the first living slot of the
  defending side, for \<open>max 1 (attack - sum of the defense of the living defenders)\<close>,
  subtracted from that slot's health alone and floored at 0; a slot without health, or
  a strike with no living defender, changes nothing.
\<close>

theorem C5_attack_phase:
  "attack_phase attacker_hp attacker_stats defender_hp defender_stats =
     spec_strike Slot3 attacker_hp attacker_stats defender_stats
       (spec_strike Slot2 attacker_hp attacker_stats defender_stats
          (spec_strike Slot1 attacker_hp attacker_stats defender_stats defender_hp))"
proof -
  have dead: "first_alive h = None \<Longrightarrow> spec_strike s attacker_hp attacker_stats defender_stats h = h"
    for h s
    by (simp add: first_alive_find spec_strike_dead del: find.simps)
  show ?thesis
    unfolding attack_phase_def slots_def
    by (simp add: attack_loop_step dead del: attack_loop.simps(2))
qed

lemma hp_sum_remaining: "hp_sum h = remaining_health h"
  by (simp add: hp_sum_def remaining_health_def slots_def)

text \<open>
  Claim C6. When combat ends at the cap of 100 rounds with a living slot on both sides,
  the player wins exactly when the sum of the player's remaining health (each slot
  floored at 0) is strictly greater than the enemy's; with equal sums, and with a smaller
  sum, the player loses.
\<close>

theorem C6_round_cap_tiebreak:
  assumes "resolve_combat player_animals player_foods enemy_animals enemy_foods =
             (rounds, player_hp, enemy_hp, player_win)"
    and "100 \<le> rounds"
    and "first_alive player_hp \<noteq> None"
    and "first_alive enemy_hp \<noteq> None"
  shows "(player_win \<longleftrightarrow> remaining_health enemy_hp < remaining_health player_hp)
     \<and> (remaining_health player_hp = remaining_health enemy_hp \<longrightarrow> \<not> player_win)
     \<and> (remaining_health player_hp < remaining_health enemy_hp \<longrightarrow> \<not> player_win)"
proof -
  have "player_win = decide_winner rounds player_hp enemy_hp"
    using assms(1) by (auto simp: resolve_combat_def Let_def split: prod.splits)
  then show ?thesis
    using assms(2-4) by (auto simp: decide_winner_def Let_def hp_sum_remaining)
qed

lemma battle_loop_rounds_le:
  "rounds \<le> 100 \<Longrightarrow> fst (battle_loop pst est rounds php ehp) \<le> 100"
  by (induction pst est rounds php ehp rule: battle_loop.induct) (simp split: if_splits)

declare battle_loop.simps [simp del]

lemma wall_round:
  "n < 100 \<Longrightarrow>
   battle_loop (\<lambda>s. (1000, 2, 0)) (\<lambda>s. (1000, 1, 0)) n
     (wall_hp (1000 - 3 * int n)) (wall_hp (1000 - 6 * int n))
   = battle_loop (\<lambda>s. (1000, 2, 0)) (\<lambda>s. (1000, 1, 0)) (Suc n)
     (wall_hp (1000 - 3 * int (Suc n))) (wall_hp (1000 - 6 * int (Suc n)))"
proof -
  assume n: "n < 100"
  have upd: "(wall_hp v)(Slot1 := w) = wall_hp w" for v w
    by (auto simp: wall_hp_def)
  have alive: "0 < v \<Longrightarrow> first_alive (wall_hp v) = Some Slot1" for v
    by (simp add: first_alive_def slots_def wall_hp_def)
  have ld: "living_defense (wall_hp v) (\<lambda>s. (1000, a, 0)) = 0" for v a
    by (simp add: living_defense_def slots_def)
  have val: "wall_hp v Slot1 = v" "wall_hp v Slot2 = 1000" "wall_hp v Slot3 = 1000" for v
    by (simp_all add: wall_hp_def)
  have ph1: "0 < v \<Longrightarrow> 6 < w \<Longrightarrow>
      attack_phase (wall_hp v) (\<lambda>s. (1000, 2, 0)) (wall_hp w) (\<lambda>s. (1000, 1, 0)) = wall_hp (w - 6)" for v w
    by (simp add: attack_phase_def slots_def alive ld val upd Let_def)
  have ph2: "0 < v \<Longrightarrow> 3 < w \<Longrightarrow>
      attack_phase (wall_hp v) (\<lambda>s. (1000, 1, 0)) (wall_hp w) (\<lambda>s. (1000, 2, 0)) = wall_hp (w - 3)" for v w
    by (simp add: attack_phase_def slots_def alive ld val upd Let_def)
  show ?thesis
    using n
    by (subst battle_loop.simps) (simp add: ph1 ph2 alive algebra_simps)
qed

lemma wall_rounds_upto:
  "k \<le> 100 \<Longrightarrow>
   battle_loop (\<lambda>s. (1000, 2, 0)) (\<lambda>s. (1000, 1, 0)) 0 (wall_hp 1000) (wall_hp 1000)
   = battle_loop (\<lambda>s. (1000, 2, 0)) (\<lambda>s. (1000, 1, 0)) k
     (wall_hp (1000 - 3 * int k)) (wall_hp (1000 - 6 * int k))"
proof (induction k)
  case 0
  show ?case by simp
next
  case (Suc k)
  then have "k \<le> 100" and "k < 100" by simp_all
  from Suc.IH [OF this(1)] wall_round [OF this(2)] show ?case by (rule trans)
qed

lemma wall_battle:
  "battle_loop (\<lambda>s. (1000, 2, 0)) (\<lambda>s. (1000, 1, 0)) 0 (wall_hp 1000) (wall_hp 1000)
   = (100, wall_hp 700, wall_hp 400)"
  by (simp add: wall_rounds_upto [of 100] battle_loop.simps [of _ _ 100])

text \<open>
  Two teams of units with health 1000 reach the cap: the player's units strike for 2,
  the enemy's for 1, so the enemy's first slot is at 400, the player's at 700, and the
  player wins.
\<close>

theorem C6_round_cap_witness:
  "resolve_combat (\<lambda>s. wall 2) (\<lambda>s. None) (\<lambda>s. wall 1) (\<lambda>s. None) =
     (100, wall_hp 700, wall_hp 400, True)
   \<and> first_alive (wall_hp 700) = Some Slot1
   \<and> first_alive (wall_hp 400) = Some Slot1
   \<and> remaining_health (wall_hp 400) < remaining_health (wall_hp 700)"
proof -
  have fa: "first_alive (wall_hp 700) = Some Slot1" "first_alive (wall_hp 400) = Some Slot1"
    by (simp_all add: first_alive_def slots_def wall_hp_def)
  have init: "(\<lambda>s. 1000) = wall_hp 1000"
    by (simp add: wall_hp_def)
  obtain w where e: "resolve_combat (\<lambda>s. wall 2) (\<lambda>s. None) (\<lambda>s. wall 1) (\<lambda>s. None) =
     (100, wall_hp 700, wall_hp 400, w)"
    by (simp add: resolve_combat_def apply_food_def wall_def init wall_battle)
  have rh: "remaining_health (wall_hp 400) < remaining_health (wall_hp 700)"
    by (simp add: remaining_health_def wall_hp_def)
  have "w \<longleftrightarrow> remaining_health (wall_hp 400) < remaining_health (wall_hp 700)"
    using C6_round_cap_tiebreak [OF e] fa by simp
  then show ?thesis using e fa rh by simp
qed


lemmas normalize_simps =
  normalize_mutation_key_def py_strip_def py_lower_def py_lower_char_def py_isspace_def
  MUTATION_ALIASES_def

text \<open>
  Four plain cows and a roll of 40 fuse into one golden cow; three plain cows are refused.
\<close>

theorem C4_fuse_witness:
  "fst (fuse (cow_keeper 4 (\<lambda>s. None)) Map.empty (Some cow) ''none'' (2 / 5)) = FusionComplete Golden 1
   \<and> get_owned_count (fst (snd (fuse (cow_keeper 4 (\<lambda>s. None)) Map.empty (Some cow) ''none'' (2 / 5))))
        ''cow'' MutNone = 0
   \<and> get_owned_count (fst (snd (fuse (cow_keeper 4 (\<lambda>s. None)) Map.empty (Some cow) ''none'' (2 / 5))))
        ''cow'' Golden = 1
   \<and> fuse (cow_keeper 3 (\<lambda>s. None)) Map.empty (Some cow) ''none'' (2 / 5) =
        (NotEnoughToFuse 3, cow_keeper 3 (\<lambda>s. None), Map.empty)"
proof -
  obtain reply p' oc' where
    e: "fuse (cow_keeper 4 (\<lambda>s. None)) Map.empty (Some cow) ''none'' (2 / 5) = (reply, p', oc')"
    by (metis prod_cases3)
  have n: "normalize_mutation_key ''none'' = Inr MutNone"
    by (simp add: normalize_simps)
  have kt: "team (cow_keeper k tm) = tm" for k tm
    by (simp add: cow_keeper_def)
  have o4: "get_owned_count (cow_keeper 4 (\<lambda>s. None)) ''cow'' m = (if m = MutNone then 4 else 0)" for m
    by (simp add: get_owned_count_def cow_keeper_def default_mutation_counts_def)
  have s4: "sellable_amount (cow_keeper 4 (\<lambda>s. None)) ''cow'' MutNone = 4"
    by (simp add: sellable_amount_def o4 reserved_count_def slots_def kt)
  have r: "roll_fusion_result MutNone (2 / 5) = Inr (Golden, 1)"
    by (simp add: roll_fusion_result_def)
  have rem: "fst (remove_animal (cow_keeper 4 (\<lambda>s. None)) ''cow'' MutNone 4) = 4"
    by (simp add: remove_animal_def rebuilt_bucket_def cow_keeper_def default_mutation_counts_def)
  obtain p1 where rem1: "remove_animal (cow_keeper 4 (\<lambda>s. None)) ''cow'' MutNone 4 = (4, p1)"
    using rem by (metis prod.collapse)
  have "fst (fuse (cow_keeper 4 (\<lambda>s. None)) Map.empty (Some cow) ''none'' (2 / 5)) =
      FusionComplete Golden 1"
    by (simp add: fuse_def n s4 r rem1 cow_def Let_def)
  then have nr: "reply \<notin> refusals"
    by (auto simp: e refusals_def)
  from C4_fuse_atomic [OF e] nr n r
  have "reply = FusionComplete Golden 1 \<and> get_owned_count p' ''cow'' MutNone = 0
      \<and> get_owned_count p' ''cow'' Golden = 1"
    by (auto simp: cow_def o4)
  moreover have "fuse (cow_keeper 3 (\<lambda>s. None)) Map.empty (Some cow) ''none'' (2 / 5) =
        (NotEnoughToFuse 3, cow_keeper 3 (\<lambda>s. None), Map.empty)"
    by (simp add: fuse_def n sellable_amount_def get_owned_count_def cow_keeper_def
        default_mutation_counts_def reserved_count_def slots_def cow_def)
  ultimately show ?thesis by (simp add: e)
qed

lemma reserved_loop_count:
  "reserved_loop ss tm aid m tot = tot + int (length (filter (\<lambda>s. tm s = Some (aid, m)) ss))"
  by (induction ss arbitrary: tot) (auto split: option.split)

lemma reserved_count_slots:
  "reserved_count tm aid m = int (length (filter (\<lambda>s. tm s = Some (aid, m)) [Slot1, Slot2, Slot3]))"
  by (simp add: reserved_count_def reserved_loop_count slots_def)

text \<open>
  Claim C10. Units reserved on the team do not count for fusion: when at least 4 units of
  the animal and tier are owned, but fewer than 4 are left after subtracting the team
  slots that hold exactly this animal and tier, the fuse is refused, the profile and the
  global counts are unchanged, and no unit is consumed.
\<close>

theorem C10_reserved_units_block_fusion:
  assumes "normalize_mutation_key mutation_text = Inr mk"
    and "4 \<le> get_owned_count p (animal_id a) mk"
    and "get_owned_count p (animal_id a) mk
           - int (length (filter (\<lambda>s. team p s = Some (animal_id a, mk)) [Slot1, Slot2, Slot3])) < 4"
  shows "fuse p owned_counts (Some a) mutation_text u =
           (if mk = Rainbow then RainbowCannotFuse
            else NotEnoughToFuse (sellable_amount p (animal_id a) mk), p, owned_counts)
     \<and> get_owned_count (fst (snd (fuse p owned_counts (Some a) mutation_text u))) (animal_id a) mk =
         get_owned_count p (animal_id a) mk"
proof -
  have "sellable_amount p (animal_id a) mk < 4"
    using assms(3) by (simp add: sellable_amount_def reserved_count_slots Let_def)
  then show ?thesis
    using assms(1) by (simp add: fuse_def Let_def)
qed

text \<open>
  Four plain cows, one of them in slot 1: three are available and the fuse is refused.
\<close>

theorem C10_reserved_units_witness:
  "normalize_mutation_key ''None'' = Inr MutNone
   \<and> get_owned_count (cow_keeper 4 ((\<lambda>s. None)(Slot1 := Some (''cow'', MutNone)))) ''cow'' MutNone = 4
   \<and> fuse (cow_keeper 4 ((\<lambda>s. None)(Slot1 := Some (''cow'', MutNone)))) Map.empty (Some cow)
        ''None'' (2 / 5)
      = (NotEnoughToFuse 3, cow_keeper 4 ((\<lambda>s. None)(Slot1 := Some (''cow'', MutNone))), Map.empty)"
proof -
  let ?p = "cow_keeper 4 ((\<lambda>s. None)(Slot1 := Some (''cow'', MutNone)))"
  have n: "normalize_mutation_key ''None'' = Inr MutNone"
    by (simp add: normalize_simps)
  have o: "get_owned_count ?p (animal_id cow) MutNone = 4"
    by (simp add: get_owned_count_def cow_keeper_def default_mutation_counts_def cow_def)
  have t: "team ?p = (\<lambda>s. None)(Slot1 := Some (''cow'', MutNone))"
    by (simp add: cow_keeper_def)
  have r: "get_owned_count ?p (animal_id cow) MutNone
           - int (length (filter (\<lambda>s. team ?p s = Some (animal_id cow, MutNone)) [Slot1, Slot2, Slot3])) < 4"
    unfolding o t by (simp add: cow_def)
  have s: "sellable_amount ?p (animal_id cow) MutNone = 3"
    unfolding sellable_amount_def o reserved_count_slots t by (simp add: cow_def)
  from C10_reserved_units_block_fusion [OF n _ r, of Map.empty "2 / 5"] o s
  show ?thesis using n by (simp add: cow_def)
qed

text \<open>
  Three attackers of attack 4 against defenders of defense 1 and health 5, the first of
  them dead: the second defender is struck three times for 2 and ends at 0, the third is
  untouched.
\<close>

theorem C5_attack_phase_example:
  "attack_phase (\<lambda>s. 5) (\<lambda>s. (5, 4, 1)) ((\<lambda>s. 5)(Slot1 := 0)) (\<lambda>s. (5, 4, 1)) Slot1 = 0
   \<and> attack_phase (\<lambda>s. 5) (\<lambda>s. (5, 4, 1)) ((\<lambda>s. 5)(Slot1 := 0)) (\<lambda>s. (5, 4, 1)) Slot2 = 0
   \<and> attack_phase (\<lambda>s. 5) (\<lambda>s. (5, 4, 1)) ((\<lambda>s. 5)(Slot1 := 0)) (\<lambda>s. (5, 4, 1)) Slot3 = 5"
  by (simp add: C5_attack_phase spec_strike_def)

lemma rng_cons_simps [simp]:
  "rng_tail (rng_cons c g) = g" "rng_cons c g 0 = c"
  by (simp_all add: rng_cons_def rng_tail_def)

lemma random_random_cons [simp]: "random_random (rng_cons c g) = (fst c, g)"
  by (simp add: random_random_def)

lemma random_choice_cons [simp]:
  "random_choice xs (rng_cons c g) =
     (if xs = [] then Inl IndexError else Inr (xs ! (snd c mod length xs), g))"
  by (simp add: random_choice_def)

lemma repair_rng_unfold:
  "repair_rng = rng_cons (0.1, 2) (rng_cons (0.1, 0) (rng_cons (0.1, 5) repair_rng))"
proof
  fix n
  show "repair_rng n = rng_cons (0.1, 2) (rng_cons (0.1, 0) (rng_cons (0.1, 5) repair_rng)) n"
  proof (cases n)
    case 0
    then show ?thesis by (simp add: repair_rng_def)
  next
    case (Suc m)
    note n = this
    show ?thesis
    proof (cases m)
      case 0
      then show ?thesis using n by (simp add: repair_rng_def rng_cons_def)
    next
      case (Suc k)
      note m = this
      show ?thesis
      proof (cases k)
        case 0
        then show ?thesis using n m by (simp add: repair_rng_def rng_cons_def)
      next
        case (Suc j)
        have "Suc (Suc (Suc j)) mod 3 = j mod 3"
          by presburger
        then show ?thesis using n m Suc by (simp add: repair_rng_def rng_cons_def)
      qed
    qed
  qed
qed

lemma on_slots_simps [simp]:
  "on_slots x y z Slot1 = x" "on_slots x y z Slot2 = y" "on_slots x y z Slot3 = z"
  by (simp_all add: on_slots_def)

lemma on_slots_upd [simp]:
  "(on_slots x y z)(Slot1 := v) = on_slots v y z"
  "(on_slots x y z)(Slot2 := v) = on_slots x v z"
  "(on_slots x y z)(Slot3 := v) = on_slots x y v"
  by (auto simp: on_slots_def fun_eq_iff split: slot.split)

lemma stuck_power: "team_power stuck_team = 205"
  by (simp add: team_power_def stuck_team_def calculate_team_power_def slots_def effective_power_def
      power_of_def food_power_def trex_def dragon_def butterfly_def mk_animal_def)

lemma fed_power: "team_power fed_team = 477"
  by (simp add: team_power_def fed_team_def calculate_team_power_def slots_def effective_power_def
      power_of_def food_power_def trex_def dragon_def butterfly_def mk_animal_def
      dragons_feast_def mk_food_def)

lemma strength_order: "MUTATION_STRENGTH_ORDER = [MutNone, Golden, Diamond, Emerald, Rainbow]"
  by (simp add: MUTATION_STRENGTH_ORDER_def MUTATION_ORDER_def)

lemma feast_candidates:
  "filter (\<lambda>f. \<bar>RARITY_INDEX (food_rarity f) - RARITY_INDEX (rarity butterfly)\<bar> \<le> 1) FOODS ! 5 =
     dragons_feast
   \<and> length (filter (\<lambda>f. \<bar>RARITY_INDEX (food_rarity f) - RARITY_INDEX (rarity butterfly)\<bar> \<le> 1) FOODS) = 9"
  by (simp add: FOODS_def mk_food_def butterfly_def mk_animal_def dragons_feast_def)

lemma feed_butterfly:
  "random_enemy_food butterfly (rng_cons (0.1, 0) (rng_cons (0.1, 5) g)) = Inr (Some dragons_feast, g)"
proof -
  let ?c = "filter (\<lambda>f. \<bar>RARITY_INDEX (food_rarity f) - RARITY_INDEX (rarity butterfly)\<bar> \<le> 1) FOODS"
  have len: "length ?c = 9" and nth: "?c ! 5 = dragons_feast"
    using feast_candidates by simp_all
  then have ne: "?c \<noteq> []" by auto
  show ?thesis
    by (simp add: random_enemy_food_def Let_def ne len nth del: filter.simps)
qed

lemma stuck_add_food:
  "add_missing_food (animals stuck_team) (foods stuck_team)
     (rng_cons (0.1, 2) (rng_cons (0.1, 0) (rng_cons (0.1, 5) g))) =
   Inr (True, foods fed_team, g)"
  by (simp add: add_missing_food_def stuck_team_def fed_team_def slots_def feed_butterfly)

lemma stuck_step:
  assumes "205 \<le> target_max"
  shows "repair_step fb stuck_team (team_power stuck_team) target_max repair_rng = Inr (fed_team, repair_rng)"
proof -
  have "repair_step fb stuck_team (team_power stuck_team) target_max
          (rng_cons (0.1, 2) (rng_cons (0.1, 0) (rng_cons (0.1, 5) repair_rng))) =
        Inr (stuck_team\<lparr>foods := foods fed_team\<rparr>, repair_rng)"
    using assms by (simp add: repair_step_def stuck_power stuck_add_food)
  moreover have "stuck_team\<lparr>foods := foods fed_team\<rparr> = fed_team"
    by (simp add: stuck_team_def fed_team_def)
  ultimately show ?thesis
    using repair_rng_unfold by simp
qed

lemma fed_remove_food: "remove_highest_food (foods fed_team) = (True, foods stuck_team)"
  by (simp add: remove_highest_food_def fed_team_def stuck_team_def slots_def food_power_def
      dragons_feast_def mk_food_def)

lemma fed_step:
  assumes "target_max < 477"
  shows "repair_step fb fed_team (team_power fed_team) target_max g = Inr (stuck_team, g)"
proof -
  have "fed_team\<lparr>foods := foods stuck_team\<rparr> = stuck_team"
    by (simp add: stuck_team_def fed_team_def)
  then show ?thesis
    using assms by (simp add: repair_step_def fed_power fed_remove_food)
qed

lemma adjust_loop_cycle:
  assumes "205 < target_min" "target_min \<le> target_max" "target_max < 477"
  shows "adjust_loop (2 * k) allowed target_min target_max stuck_team repair_rng =
           Inr (None, stuck_team, repair_rng)"
proof (induction k)
  case 0
  show ?case by simp
next
  case (Suc k)
  have "adjust_loop (Suc (Suc (2 * k))) allowed target_min target_max stuck_team repair_rng =
        adjust_loop (2 * k) allowed target_min target_max stuck_team repair_rng"
    using assms
    by (simp add: adjust_step_def stuck_power fed_power
        stuck_step [unfolded stuck_power] fed_step [unfolded fed_power])
  then show ?case using Suc.IH by simp
qed

lemma enforce_loop_cycle:
  assumes "205 < target_min" "target_min \<le> target_max" "target_max < 477"
  shows "enforce_loop (2 * k) w s target_min target_max stuck_team repair_rng =
           Inr (stuck_team, repair_rng)"
proof (induction k)
  case 0
  show ?case by simp
next
  case (Suc k)
  have "enforce_loop (Suc (Suc (2 * k))) w s target_min target_max stuck_team repair_rng =
        enforce_loop (2 * k) w s target_min target_max stuck_team repair_rng"
    using assms
    by (simp add: enforce_step_def stuck_power fed_power
        stuck_step [unfolded stuck_power] fed_step [unfolded fed_power])
  then show ?case using Suc.IH by simp
qed

lemma adjust_stuck:
  assumes "205 < target_min" "target_min \<le> target_max" "target_max < 477" "allowed \<noteq> []"
  shows "adjust_enemy_team stuck_team allowed target_min target_max repair_rng =
           Inr (205, stuck_team, repair_rng)"
proof -
  have a: "adjust_loop 350 allowed target_min target_max stuck_team repair_rng =
      Inr (None, stuck_team, repair_rng)"
    using adjust_loop_cycle [OF assms(1-3), of 175] by simp
  have b: "enforce_loop 200 w s target_min target_max stuck_team repair_rng =
      Inr (stuck_team, repair_rng)" for w s
    using enforce_loop_cycle [OF assms(1-3), of 100] by simp
  show ?thesis
    using assms(4) by (simp add: adjust_enemy_team_def a b stuck_power Let_def)
qed

lemma strong_player_power:
  "calculate_team_power strong_player_animals strong_player_foods strong_player_mutations = 284.8"
  by (simp add: calculate_team_power_def slots_def effective_power_def power_of_def food_power_def
      strong_player_animals_def strong_player_foods_def strong_player_mutations_def
      trex_def dragon_def unicorn_def mk_animal_def dragons_feast_def mk_food_def)

lemma strong_player_window:
  "target_window strong_player_foods strong_player_mutations
     (calculate_team_power strong_player_animals strong_player_foods strong_player_mutations) =
     (stuck_min, stuck_max)"
  unfolding strong_player_power
  by (simp add: target_window_def slots_def base_range_def stuck_min_def stuck_max_def
      strong_player_foods_def strong_player_mutations_def)

lemma stuck_bounds: "205 < stuck_min" "stuck_min \<le> stuck_max" "stuck_max < 477"
  by (simp_all add: stuck_min_def stuck_max_def)

lemma strong_player_allowed: "allowed_indices_of strong_player_animals = [5, 6]"
  by (simp add: allowed_indices_of_def slots_def strong_player_animals_def py_round_def
      trex_def dragon_def unicorn_def mk_animal_def)

lemma pick_units:
  "filter (\<lambda>a. role a = TANK \<and> rarity_index a \<in> set [5, 6]) ANIMALS = [trex]"
  "filter (\<lambda>a. role a = ATTACK \<and> rarity_index a \<in> set [5, 6]) ANIMALS = [dragon]"
  "filter (\<lambda>a. role a = SUPPORT \<and> rarity_index a \<in> set [5, 6]) ANIMALS ! 1 = butterfly"
  "length (filter (\<lambda>a. role a = SUPPORT \<and> rarity_index a \<in> set [5, 6]) ANIMALS) = 3"
  by (simp_all add: ANIMALS_def mk_animal_def trex_def dragon_def butterfly_def)

lemma draw_stuck:
  "draw_enemy [5, 6] (rng_prepend sample_draws g) = Inr (stuck_team, g)"
proof -
  have ne: "filter (\<lambda>a. role a = SUPPORT \<and> rarity_index a \<in> set [5, 6]) ANIMALS \<noteq> []"
    using pick_units(4) by auto
  have nofood: "0.35 \<le> fst c \<Longrightarrow> random_enemy_food a (rng_cons c h) = Inr (None, h)" for a c h
    by (simp add: random_enemy_food_def)
  have mnone: "fst c < 0.55 \<Longrightarrow> random_enemy_mutation (rng_cons c h) = (MutNone, h)" for c h
    by (simp add: random_enemy_mutation_def)
  have mrain: "0.97 \<le> fst c \<Longrightarrow> random_enemy_mutation (rng_cons c h) = (Rainbow, h)" for c h
    by (simp add: random_enemy_mutation_def)
  have pick3: "filter (\<lambda>a. role a = SUPPORT \<and> rarity_index a \<in> set [5, 6]) ANIMALS ! Suc 0 = butterfly"
    using pick_units(3) by simp
  have "draw_enemy [5, 6] (rng_prepend sample_draws g) =
      Inr (\<lparr>animals = (\<lambda>s. case s of Slot1 \<Rightarrow> trex | Slot2 \<Rightarrow> dragon | Slot3 \<Rightarrow> butterfly),
            foods = (\<lambda>s. case s of Slot1 \<Rightarrow> None | Slot2 \<Rightarrow> None | Slot3 \<Rightarrow> None),
            mutations = (\<lambda>s. case s of Slot1 \<Rightarrow> MutNone | Slot2 \<Rightarrow> MutNone | Slot3 \<Rightarrow> Rainbow)\<rparr>, g)"
    by (simp add: draw_enemy_def sample_draws_def random_animal_by_rarity_and_role_def Let_def
        pick_units pick3 ne nofood mnone mrain del: filter.simps set_simps)
  then show ?thesis
    by (simp add: stuck_team_def on_slots_def)
qed

lemma stuck_team_signature:
  "enemy_signature (animals stuck_team) (mutations stuck_team) = stuck_signature"
  by (simp add: enemy_signature_def slots_def stuck_team_def stuck_signature_def
      trex_def dragon_def butterfly_def mk_animal_def)

lemma sample_loop_stuck:
  "sample_loop n [5, 6] stuck_min stuck_max lsig stuck_sampling ((rng_prepend sample_draws ^^ n) g) =
     Inr (stuck_sampling, g)"
proof (induction n)
  case 0
  show ?case by simp
next
  case (Suc n)
  show ?case
    using Suc.IH stuck_bounds
    by (simp add: draw_stuck stuck_power stuck_team_signature stuck_sampling_def Let_def
        del: rng_prepend.simps)
qed

lemma sample_loop_first:
  "sample_loop (Suc n) [5, 6] stuck_min stuck_max lsig
     \<lparr>best_candidate = None, best_delta = None, best_in_range = None, best_in_range_not_same = None\<rparr>
     ((rng_prepend sample_draws ^^ Suc n) g) =
     Inr (stuck_sampling, g)"
proof -
  have "sample_loop (Suc n) [5, 6] stuck_min stuck_max lsig
     \<lparr>best_candidate = None, best_delta = None, best_in_range = None, best_in_range_not_same = None\<rparr>
     (rng_prepend sample_draws ((rng_prepend sample_draws ^^ n) g)) =
     sample_loop n [5, 6] stuck_min stuck_max lsig stuck_sampling ((rng_prepend sample_draws ^^ n) g)"
    using stuck_bounds
    by (simp add: draw_stuck stuck_power stuck_team_signature stuck_sampling_def Let_def
        del: rng_prepend.simps)
  also have "\<dots> = Inr (stuck_sampling, g)"
    by (rule sample_loop_stuck)
  finally show ?thesis
    by (simp del: rng_prepend.simps sample_loop.simps)
qed

lemma sampling_unlucky:
  "sample_loop 300 [5, 6] stuck_min stuck_max lsig
     \<lparr>best_candidate = None, best_delta = None, best_in_range = None, best_in_range_not_same = None\<rparr>
     unlucky_rng = Inr (stuck_sampling, repair_rng)"
  using sample_loop_first [of 299 lsig repair_rng]
  by (simp add: unlucky_rng_def del: rng_prepend.simps sample_loop.simps funpow.simps)

lemma select_stuck:
  "select_and_adjust stuck_sampling [5, 6] stuck_min stuck_max repair_rng =
     EnemyReady stuck_team 205 stuck_signature repair_rng"
proof -
  have a: "adjust_enemy_team stuck_team [5, 6] stuck_min stuck_max repair_rng =
      Inr (205, stuck_team, repair_rng)"
    by (rule adjust_stuck) (simp_all add: stuck_bounds)
  show ?thesis
    using stuck_bounds
    by (simp add: select_and_adjust_def stuck_sampling_def a stuck_power stuck_team_signature)
qed

text \<open>
  Claim C9 fails at this input. The player trex, dragon, unicorn, each with the dragon's
  feast and no mutation, has the window [227.84, 398.72]. With the draws of
  \<open>unlucky_rng\<close> every sampled enemy is trex, dragon, rainbow butterfly (power 205, below
  the window); each repair pass below the window gives the butterfly the dragon's feast
  (power 477, above the window) and the next pass removes it again, through the 350 and
  200 passes of both calls of the repair. The enemy is returned with power 205, outside
  the window, and no failure is reported.
\<close>

theorem C9_out_of_window_enemy:
  "synthesize_enemy strong_player_animals strong_player_foods strong_player_mutations last_signature
     unlucky_rng = EnemyReady stuck_team 205 stuck_signature repair_rng
   \<and> target_window strong_player_foods strong_player_mutations
       (calculate_team_power strong_player_animals strong_player_foods strong_player_mutations) =
       (227.84, 398.72)
   \<and> team_power stuck_team = 205"
proof -
  have "synthesize_enemy strong_player_animals strong_player_foods strong_player_mutations
      last_signature unlucky_rng = EnemyReady stuck_team 205 stuck_signature repair_rng"
    unfolding synthesize_enemy_def strong_player_allowed strong_player_window Let_def
    by (simp add: sampling_unlucky select_stuck)
  moreover have "(stuck_min, stuck_max) = (227.84, 398.72)"
    by (simp add: stuck_min_def stuck_max_def)
  ultimately show ?thesis
    using strong_player_window stuck_power by simp
qed

lemma food_power_nonneg_if: "fo = None \<Longrightarrow> food_power fo = 0"
  by (simp add: food_power_def)

lemma downgrade_mutation_spec:
  "downgrade_mutation ms =
     (case top_mutation_slot ms of
        Some s \<Rightarrow> (True, ms(s := tier_below (ms s)))
      | None \<Rightarrow> (False, ms))"
  by (cases "ms Slot1"; cases "ms Slot2"; cases "ms Slot3")
     (simp_all add: downgrade_mutation_def top_mutation_slot_def slots_def strength_order)

lemma upgrade_mutation_spec:
  "upgrade_mutation ms =
     (case low_mutation_slot ms of
        Some s \<Rightarrow> (True, ms(s := tier_above (ms s)))
      | None \<Rightarrow> (False, ms))"
  by (cases "ms Slot1"; cases "ms Slot2"; cases "ms Slot3")
     (simp_all add: upgrade_mutation_def low_mutation_slot_def slots_def strength_order)

lemma catalog_food_power: "f \<in> set FOODS \<Longrightarrow> 0 \<le> food_power (Some f)"
proof -
  have "list_all (\<lambda>f. 0 \<le> food_power (Some f)) FOODS"
    by (simp add: FOODS_def mk_food_def food_power_def)
  then show "f \<in> set FOODS \<Longrightarrow> 0 \<le> food_power (Some f)"
    unfolding list_all_iff by blast
qed

lemma catalog_items_power:
  assumes "catalog_items fs"
  shows "fs s = None \<or> - 1 < food_power (fs s)"
proof (cases "fs s")
  case None
  then show ?thesis by simp
next
  case (Some f)
  have "f \<in> set FOODS"
    using assms Some by (cases s) (auto simp: catalog_items_def)
  then show ?thesis
    using catalog_food_power [of f] Some by simp
qed

lemma remove_highest_food_spec:
  assumes "catalog_items fs"
  shows "remove_highest_food fs =
     (case heaviest_item_slot fs of
        Some s \<Rightarrow> (True, fs(s := None))
      | None \<Rightarrow> (False, fs))"
proof -
  have p: "fs Slot1 = None \<or> - 1 < food_power (fs Slot1)"
    "fs Slot2 = None \<or> - 1 < food_power (fs Slot2)"
    "fs Slot3 = None \<or> - 1 < food_power (fs Slot3)"
    using catalog_items_power [OF assms] by blast+
  show ?thesis
    using p
    by (cases "fs Slot1"; cases "fs Slot2"; cases "fs Slot3")
       (auto simp: remove_highest_food_def heaviest_item_slot_def slots_def Let_def)
qed

lemma strongest_food_feast: "strongest_food = dragons_feast"
  by (simp add: strongest_food_def FOODS_def mk_food_def food_power_def dragons_feast_def)

lemma strongest_food_single:
  "f \<in> set FOODS \<Longrightarrow> f \<noteq> strongest_food \<Longrightarrow> food_power (Some f) < food_power (Some strongest_food)"
proof -
  have "list_all (\<lambda>f. f = dragons_feast \<or> food_power (Some f) < food_power (Some dragons_feast)) FOODS"
    by (simp add: FOODS_def mk_food_def food_power_def dragons_feast_def)
  then show "f \<in> set FOODS \<Longrightarrow> f \<noteq> strongest_food \<Longrightarrow>
      food_power (Some f) < food_power (Some strongest_food)"
    unfolding strongest_food_feast list_all_iff by blast
qed

lemma random_choice_member:
  "random_choice xs g = Inr (x, g') \<Longrightarrow> x \<in> set xs"
  by (auto simp: random_choice_def split: if_splits)

lemma random_animal_member:
  assumes "random_animal_by_rarity_and_role allowed r g = Inr (a, g')"
  shows "a \<in> set ANIMALS \<and> role a = r \<and> rarity_index a \<in> set allowed"
  using random_choice_member [of "filter (\<lambda>a. role a = r \<and> rarity_index a \<in> set allowed) ANIMALS" g a g']
    assms
  by (simp add: random_animal_by_rarity_and_role_def Let_def del: set_filter) auto

lemma random_enemy_food_member:
  assumes "random_enemy_food a g = Inr (Some f, g')"
  shows "f \<in> set FOODS"
proof -
  let ?c = "filter (\<lambda>f. \<bar>RARITY_INDEX (food_rarity f) - RARITY_INDEX (rarity a)\<bar> \<le> 1) FOODS"
  let ?d = "if ?c = [] then FOODS else ?c"
  obtain g1 where "random_choice ?d g1 = Inr (f, g')"
    using assms
    by (auto simp: random_enemy_food_def Let_def split: prod.splits if_splits sum.splits
        simp del: filter.simps)
  then have "f \<in> set ?d" by (rule random_choice_member)
  then show ?thesis by (auto split: if_splits)
qed

lemma add_missing_food_spec:
  assumes "add_missing_food as fs g = Inr (added, fs', g')"
  shows "if added then \<exists>s f. fs s = None \<and> f \<in> set FOODS \<and> fs' = fs(s := Some f)
         else fs' = fs"
proof (cases "filter (\<lambda>s. fs s = None) slots = []")
  case True
  with assms show ?thesis by (simp add: add_missing_food_def)
next
  case False
  then obtain s g1 fo where c: "random_choice (filter (\<lambda>s. fs s = None) slots) g = Inr (s, g1)"
    and f: "random_enemy_food (as s) g1 = Inr (fo, g')"
    and r: "added = (fo \<noteq> None)" "fs' = fs(s := fo)"
    using assms
    by (auto simp: add_missing_food_def Let_def split: sum.splits prod.splits simp del: filter.simps)
  have e: "fs s = None"
    using random_choice_member [OF c] by simp
  show ?thesis
  proof (cases fo)
    case None
    then show ?thesis using r e by (auto simp: fun_eq_iff)
  next
    case (Some f')
    then show ?thesis using r e random_enemy_food_member [of "as s" g1 f' g'] f by auto
  qed
qed

lemma reroll_slot_spec:
  assumes "reroll_slot t allowed over_max g = Inr (t', g')"
  shows "\<exists>s a fo m.
           a \<in> set ANIMALS \<and> role a = role (animals t s) \<and> rarity_index a \<in> set allowed
           \<and> t' = t\<lparr>animals := (animals t)(s := a), foods := (foods t)(s := fo),
                     mutations := (mutations t)(s := m)\<rparr>
           \<and> (if over_max then fo = None \<and> m = MutNone
               else (\<exists>h h'. random_enemy_food a h = Inr (fo, h') \<and> m = fst (random_enemy_mutation h')))"
proof -
  obtain s g1 where c: "random_choice slots g = Inr (s, g1)"
    using assms by (auto simp: reroll_slot_def split: sum.splits)
  obtain a g2 where a: "random_animal_by_rarity_and_role allowed (role (animals t s)) g1 = Inr (a, g2)"
    using assms c by (auto simp: reroll_slot_def split: sum.splits)
  note m = random_animal_member [OF a]
  show ?thesis
  proof (cases over_max)
    case True
    then have "t' = t\<lparr>animals := (animals t)(s := a), foods := (foods t)(s := None),
                     mutations := (mutations t)(s := MutNone)\<rparr>"
      using assms c a by (simp add: reroll_slot_def)
    then show ?thesis using m True by auto
  next
    case False
    obtain fo g3 where f: "random_enemy_food a g2 = Inr (fo, g3)"
      using assms c a False by (auto simp: reroll_slot_def split: sum.splits)
    have "t' = t\<lparr>animals := (animals t)(s := a), foods := (foods t)(s := fo),
                     mutations := (mutations t)(s := fst (random_enemy_mutation g3))\<rparr>"
      using assms c a f False by (auto simp: reroll_slot_def split: prod.splits)
    moreover have "\<exists>h h'. random_enemy_food a h = Inr (fo, h')
        \<and> fst (random_enemy_mutation g3) = fst (random_enemy_mutation h')"
      using f by blast
    ultimately have "a \<in> set ANIMALS \<and> role a = role (animals t s) \<and> rarity_index a \<in> set allowed
           \<and> t' = t\<lparr>animals := (animals t)(s := a), foods := (foods t)(s := fo),
                     mutations := (mutations t)(s := fst (random_enemy_mutation g3))\<rparr>
           \<and> (if over_max then fo = None \<and> fst (random_enemy_mutation g3) = MutNone
               else (\<exists>h h'. random_enemy_food a h = Inr (fo, h')
                      \<and> fst (random_enemy_mutation g3) = fst (random_enemy_mutation h')))"
      using m False by simp
    then show ?thesis by blast
  qed
qed

lemma reroll_pinned_spec:
  assumes "reroll_pinned t pinned fo m g = Inr (t', g')"
  shows "\<exists>s a.
           a \<in> set ANIMALS \<and> role a = role (animals t s) \<and> rarity_index a = pinned
           \<and> t' = t\<lparr>animals := (animals t)(s := a), foods := (foods t)(s := fo),
                     mutations := (mutations t)(s := m)\<rparr>"
proof -
  obtain s g1 where c: "random_choice slots g = Inr (s, g1)"
    using assms by (auto simp: reroll_pinned_def split: sum.splits)
  obtain a g2 where a: "random_animal_by_rarity_and_role [pinned] (role (animals t s)) g1 = Inr (a, g2)"
    using assms c by (auto simp: reroll_pinned_def split: sum.splits)
  have "t' = t\<lparr>animals := (animals t)(s := a), foods := (foods t)(s := fo),
                     mutations := (mutations t)(s := m)\<rparr>"
    using assms c a by (simp add: reroll_pinned_def)
  then show ?thesis using random_animal_member [OF a] by auto
qed

text \<open>
  Claim C8, as the code has it. One pass of the 350-pass loop on a team outside the
  window: above the maximum it removes the item of the first slot with the greatest item
  power, else lowers the first slot of the greatest multiplier by one tier, else re-rolls
  a random slot to a unit of the slot's role from any allowed rarity, with item and
  mutation cleared. Otherwise (below the minimum) it draws an item for a random empty
  slot (the draw gives none 65% of the time), else raises the first slot of the lowest
  multiplier by one tier, else re-rolls a random slot to a unit of the slot's role from
  any allowed rarity with a fresh item draw and a fresh mutation draw. Only the final pass
  of 200 pins the re-roll: to the lowest allowed rarity with item and mutation cleared,
  or to the highest allowed rarity with the single strongest item and rainbow.
\<close>

theorem C8_repair_order:
  assumes "catalog_items (foods t)"
  shows "adjust_step allowed t cp target_max g =
      (if target_max < cp then
         (case heaviest_item_slot (foods t) of
            Some s \<Rightarrow> Inr (t\<lparr>foods := (foods t)(s := None)\<rparr>, g)
          | None \<Rightarrow>
              (case top_mutation_slot (mutations t) of
                 Some s \<Rightarrow> Inr (t\<lparr>mutations := (mutations t)(s := tier_below (mutations t s))\<rparr>, g)
               | None \<Rightarrow> reroll_slot t allowed True g))
       else
         (case add_missing_food (animals t) (foods t) g of
            Inl e \<Rightarrow> Inl e
          | Inr (added, foods', g1) \<Rightarrow>
              if added then Inr (t\<lparr>foods := foods'\<rparr>, g1)
              else
                (case low_mutation_slot (mutations t) of
                   Some s \<Rightarrow> Inr (t\<lparr>mutations := (mutations t)(s := tier_above (mutations t s))\<rparr>, g1)
                 | None \<Rightarrow> reroll_slot t allowed False g1)))
    \<and> (add_missing_food (animals t) (foods t) g = Inr (added, foods', g1) \<longrightarrow>
         (if added then \<exists>s f. foods t s = None \<and> f \<in> set FOODS \<and> foods' = (foods t)(s := Some f)
          else foods' = foods t))
    \<and> (reroll_slot t allowed over_max g = Inr (t', g') \<longrightarrow>
         (\<exists>s a fo m.
            a \<in> set ANIMALS \<and> role a = role (animals t s) \<and> rarity_index a \<in> set allowed
            \<and> t' = t\<lparr>animals := (animals t)(s := a), foods := (foods t)(s := fo),
                      mutations := (mutations t)(s := m)\<rparr>
            \<and> (if over_max then fo = None \<and> m = MutNone
                else (\<exists>h h'. random_enemy_food a h = Inr (fo, h')
                        \<and> m = fst (random_enemy_mutation h')))))
    \<and> enforce_step weakest_index strongest_index t cp target_max g =
      (if target_max < cp then
         (case heaviest_item_slot (foods t) of
            Some s \<Rightarrow> Inr (t\<lparr>foods := (foods t)(s := None)\<rparr>, g)
          | None \<Rightarrow>
              (case top_mutation_slot (mutations t) of
                 Some s \<Rightarrow> Inr (t\<lparr>mutations := (mutations t)(s := tier_below (mutations t s))\<rparr>, g)
               | None \<Rightarrow> reroll_pinned t weakest_index None MutNone g))
       else
         (case add_missing_food (animals t) (foods t) g of
            Inl e \<Rightarrow> Inl e
          | Inr (added, foods', g1) \<Rightarrow>
              if added then Inr (t\<lparr>foods := foods'\<rparr>, g1)
              else
                (case low_mutation_slot (mutations t) of
                   Some s \<Rightarrow> Inr (t\<lparr>mutations := (mutations t)(s := tier_above (mutations t s))\<rparr>, g1)
                 | None \<Rightarrow> reroll_pinned t strongest_index (Some strongest_food) Rainbow g1)))
    \<and> (reroll_pinned t pinned fo m g = Inr (t', g') \<longrightarrow>
         (\<exists>s a.
            a \<in> set ANIMALS \<and> role a = role (animals t s) \<and> rarity_index a = pinned
            \<and> t' = t\<lparr>animals := (animals t)(s := a), foods := (foods t)(s := fo),
                      mutations := (mutations t)(s := m)\<rparr>))
    \<and> (\<forall>f \<in> set FOODS. f \<noteq> strongest_food \<longrightarrow>
          food_power (Some f) < food_power (Some strongest_food))"
proof -
  have keep: "add_missing_food (animals t) (foods t) g = Inr (False, fs, h) \<Longrightarrow> fs = foods t" for fs h
    using add_missing_food_spec [of "animals t" "foods t" g False fs h] by simp
  have same: "t\<lparr>foods := foods t\<rparr> = t"
    by simp
  have step: "repair_step fb t cp target_max g =
      (if target_max < cp then
         (case heaviest_item_slot (foods t) of
            Some s \<Rightarrow> Inr (t\<lparr>foods := (foods t)(s := None)\<rparr>, g)
          | None \<Rightarrow>
              (case top_mutation_slot (mutations t) of
                 Some s \<Rightarrow> Inr (t\<lparr>mutations := (mutations t)(s := tier_below (mutations t s))\<rparr>, g)
               | None \<Rightarrow> fb t True g))
       else
         (case add_missing_food (animals t) (foods t) g of
            Inl e \<Rightarrow> Inl e
          | Inr (added, foods', g1) \<Rightarrow>
              if added then Inr (t\<lparr>foods := foods'\<rparr>, g1)
              else
                (case low_mutation_slot (mutations t) of
                   Some s \<Rightarrow> Inr (t\<lparr>mutations := (mutations t)(s := tier_above (mutations t s))\<rparr>, g1)
                 | None \<Rightarrow> fb t False g1)))" for fb
  proof (cases "target_max < cp")
    case True
    then show ?thesis
      by (simp add: repair_step_def remove_highest_food_spec [OF assms] downgrade_mutation_spec
          split: option.split)
  next
    case False
    show ?thesis
    proof (cases "add_missing_food (animals t) (foods t) g")
      case (Inl e)
      then show ?thesis using False by (simp add: repair_step_def)
    next
      case (Inr r)
      obtain added fs h where r: "r = (added, fs, h)"
        by (metis prod_cases3)
      show ?thesis
      proof (cases added)
        case True
        then show ?thesis using False Inr r by (simp add: repair_step_def)
      next
        case no: False
        then have "fs = foods t" using keep Inr r by simp
        then show ?thesis
          using False Inr r no
          by (simp add: repair_step_def upgrade_mutation_spec same split: option.split)
      qed
    qed
  qed
  have last: "last MUTATION_STRENGTH_ORDER = Rainbow"
    by (simp add: strength_order)
  have a: "adjust_step allowed t cp target_max g =
      (if target_max < cp then
         (case heaviest_item_slot (foods t) of
            Some s \<Rightarrow> Inr (t\<lparr>foods := (foods t)(s := None)\<rparr>, g)
          | None \<Rightarrow>
              (case top_mutation_slot (mutations t) of
                 Some s \<Rightarrow> Inr (t\<lparr>mutations := (mutations t)(s := tier_below (mutations t s))\<rparr>, g)
               | None \<Rightarrow> reroll_slot t allowed True g))
       else
         (case add_missing_food (animals t) (foods t) g of
            Inl e \<Rightarrow> Inl e
          | Inr (added, foods', g1) \<Rightarrow>
              if added then Inr (t\<lparr>foods := foods'\<rparr>, g1)
              else
                (case low_mutation_slot (mutations t) of
                   Some s \<Rightarrow> Inr (t\<lparr>mutations := (mutations t)(s := tier_above (mutations t s))\<rparr>, g1)
                 | None \<Rightarrow> reroll_slot t allowed False g1)))"
    unfolding adjust_step_def step
    by (simp split: sum.split prod.split option.split)
  have b: "enforce_step weakest_index strongest_index t cp target_max g =
      (if target_max < cp then
         (case heaviest_item_slot (foods t) of
            Some s \<Rightarrow> Inr (t\<lparr>foods := (foods t)(s := None)\<rparr>, g)
          | None \<Rightarrow>
              (case top_mutation_slot (mutations t) of
                 Some s \<Rightarrow> Inr (t\<lparr>mutations := (mutations t)(s := tier_below (mutations t s))\<rparr>, g)
               | None \<Rightarrow> reroll_pinned t weakest_index None MutNone g))
       else
         (case add_missing_food (animals t) (foods t) g of
            Inl e \<Rightarrow> Inl e
          | Inr (added, foods', g1) \<Rightarrow>
              if added then Inr (t\<lparr>foods := foods'\<rparr>, g1)
              else
                (case low_mutation_slot (mutations t) of
                   Some s \<Rightarrow> Inr (t\<lparr>mutations := (mutations t)(s := tier_above (mutations t s))\<rparr>, g1)
                 | None \<Rightarrow> reroll_pinned t strongest_index (Some strongest_food) Rainbow g1)))"
    unfolding enforce_step_def step last
    by (simp split: sum.split prod.split option.split)
  have c: "add_missing_food (animals t) (foods t) g = Inr (added, foods', g1) \<longrightarrow>
         (if added then \<exists>s f. foods t s = None \<and> f \<in> set FOODS \<and> foods' = (foods t)(s := Some f)
          else foods' = foods t)"
    using add_missing_food_spec [of "animals t" "foods t" g added foods' g1] by blast
  have d: "reroll_slot t allowed over_max g = Inr (t', g') \<longrightarrow>
         (\<exists>s a fo m.
            a \<in> set ANIMALS \<and> role a = role (animals t s) \<and> rarity_index a \<in> set allowed
            \<and> t' = t\<lparr>animals := (animals t)(s := a), foods := (foods t)(s := fo),
                      mutations := (mutations t)(s := m)\<rparr>
            \<and> (if over_max then fo = None \<and> m = MutNone
                else (\<exists>h h'. random_enemy_food a h = Inr (fo, h')
                        \<and> m = fst (random_enemy_mutation h'))))"
    using reroll_slot_spec [of t allowed over_max g t' g'] by blast
  have e: "reroll_pinned t pinned fo m g = Inr (t', g') \<longrightarrow>
         (\<exists>s a.
            a \<in> set ANIMALS \<and> role a = role (animals t s) \<and> rarity_index a = pinned
            \<and> t' = t\<lparr>animals := (animals t)(s := a), foods := (foods t)(s := fo),
                      mutations := (mutations t)(s := m)\<rparr>)"
    using reroll_pinned_spec [of t pinned fo m g t' g'] by blast
  have f: "\<forall>f \<in> set FOODS. f \<noteq> strongest_food \<longrightarrow>
          food_power (Some f) < food_power (Some strongest_food)"
    using strongest_food_single by blast
  show ?thesis
    by (intro conjI a b c d e f)
qed

lemma tank_candidates_123:
  "length (filter (\<lambda>a. role a = TANK \<and> rarity_index a \<in> set [1, 2, 3]) ANIMALS) = 9"
  "filter (\<lambda>a. role a = TANK \<and> rarity_index a \<in> set [1, 2, 3]) ANIMALS ! 5 = elephant"
  by (simp_all add: ANIMALS_def mk_animal_def elephant_def)

lemma support_candidates_56:
  "filter (\<lambda>a. role a = SUPPORT \<and> rarity_index a \<in> set [5, 6]) ANIMALS ! 0 = octopus"
  by (simp add: ANIMALS_def mk_animal_def octopus_def)

lemma over_power: "team_power over_team = 86.1"
  by (simp add: team_power_def over_team_def calculate_team_power_def slots_def effective_power_def
      power_of_def food_power_def hippo_def wolf_def swan_epic_def mk_animal_def)

lemma under_power: "team_power under_team = 561"
  by (simp add: team_power_def under_team_def calculate_team_power_def slots_def effective_power_def
      power_of_def food_power_def trex_def dragon_def butterfly_def mk_animal_def)

lemma over_reroll:
  "reroll_slot over_team [1, 2, 3] True over_rng = Inr (rerolled_over_team, repair_rng)"
proof -
  have ne: "filter (\<lambda>a. role a = TANK \<and> rarity_index a \<in> set [1, 2, 3]) ANIMALS \<noteq> []"
    using tank_candidates_123(1) by auto
  have r: "role hippo = TANK"
    by (simp add: hippo_def mk_animal_def)
  show ?thesis
    by (simp add: reroll_slot_def over_rng_def slots_def over_team_def rerolled_over_team_def r
        random_animal_by_rarity_and_role_def Let_def ne tank_candidates_123
        del: filter.simps set_simps)
qed

lemma under_reroll:
  "reroll_slot under_team [5, 6] False (rng_prepend [(1 / 2, 2), (1 / 2, 0), (1 / 2, 0), (1 / 2, 0)] g) =
     Inr (rerolled_under_team, g)"
proof -
  have ne: "filter (\<lambda>a. role a = SUPPORT \<and> rarity_index a \<in> set [5, 6]) ANIMALS \<noteq> []"
    using pick_units(4) by auto
  have r: "role butterfly = SUPPORT"
    by (simp add: butterfly_def mk_animal_def)
  have nofood: "0.35 \<le> fst c \<Longrightarrow> random_enemy_food a (rng_cons c h) = Inr (None, h)" for a c h
    by (simp add: random_enemy_food_def)
  have mnone: "fst c < 0.55 \<Longrightarrow> random_enemy_mutation (rng_cons c h) = (MutNone, h)" for c h
    by (simp add: random_enemy_mutation_def)
  show ?thesis
    by (simp add: reroll_slot_def slots_def under_team_def rerolled_under_team_def r
        random_animal_by_rarity_and_role_def Let_def ne pick_units(4) support_candidates_56
        nofood mnone del: filter.simps set_simps)
qed

lemma under_add_food:
  "add_missing_food (animals under_team) (foods under_team) (rng_prepend [(1 / 2, 0), (1 / 2, 0)] g) =
     Inr (False, foods under_team, g)"
proof -
  have nofood: "0.35 \<le> fst c \<Longrightarrow> random_enemy_food a (rng_cons c h) = Inr (None, h)" for a c h
    by (simp add: random_enemy_food_def)
  show ?thesis
    by (simp add: add_missing_food_def slots_def under_team_def nofood)
qed

lemma over_nothing_to_strip:
  "remove_highest_food (foods over_team) = (False, foods over_team)"
  "downgrade_mutation (mutations over_team) = (False, mutations over_team)"
  by (simp_all add: remove_highest_food_def downgrade_mutation_def slots_def over_team_def
      food_power_def strength_order)

lemma under_nothing_to_upgrade:
  "upgrade_mutation (mutations under_team) = (False, mutations under_team)"
  by (simp add: upgrade_mutation_def slots_def under_team_def strength_order)

lemma over_step:
  "adjust_step [1, 2, 3] over_team (team_power over_team) 84.75 over_rng =
     Inr (rerolled_over_team, repair_rng)"
  by (simp add: adjust_step_def repair_step_def over_power over_nothing_to_strip over_reroll)

lemma under_step:
  "adjust_step [5, 6] under_team (team_power under_team) 1958 under_rng =
     Inr (rerolled_under_team, repair_rng)"
proof -
  have u: "under_rng =
      rng_prepend [(1 / 2, 0), (1 / 2, 0)] (rng_prepend [(1 / 2, 2), (1 / 2, 0), (1 / 2, 0), (1 / 2, 0)] repair_rng)"
    by (simp add: under_rng_def)
  have same: "under_team\<lparr>foods := foods under_team\<rparr> = under_team"
    by simp
  show ?thesis
    unfolding u adjust_step_def repair_step_def under_power under_add_food
    by (simp add: under_nothing_to_upgrade same under_reroll del: rng_prepend.simps)
qed

lemma weak_player_facts:
  "allowed_indices_of weak_player_animals = [1, 2, 3]"
  "target_window (\<lambda>s. None) (\<lambda>s. MutNone)
     (calculate_team_power weak_player_animals (\<lambda>s. None) (\<lambda>s. MutNone)) = (45.2, 84.75)"
  by (simp_all add: allowed_indices_of_def slots_def weak_player_animals_def py_round_def
      target_window_def base_range_def calculate_team_power_def effective_power_def power_of_def
      food_power_def goat_def chicken_def butterfly_def mk_animal_def)

lemma rainbow_player_facts:
  "target_window strong_player_foods rainbow_player_mutations
     (calculate_team_power strong_player_animals strong_player_foods rainbow_player_mutations) =
     (890, 1958)"
  by (simp add: slots_def target_window_def base_range_def calculate_team_power_def
      effective_power_def power_of_def food_power_def strong_player_animals_def
      strong_player_foods_def rainbow_player_mutations_def trex_def dragon_def unicorn_def
      mk_animal_def dragons_feast_def mk_food_def)

text \<open>
  Claim C8 as stated fails in the 350-pass loop. For the player goat, chicken, butterfly
  the window is [45.2, 84.75] and the allowed rarities are 1, 2, 3; the enemy hippo,
  wolf, swan (power 86.1, no item, no mutation) is re-rolled to an elephant of rarity 3,
  not of the lowest rarity 1. For the player trex, dragon, unicorn, all rainbow with the
  dragon's feast, the window is [890, 1958] and the allowed rarities are 5, 6; the enemy
  trex, dragon, butterfly, all rainbow (power 561), is re-rolled to an octopus of rarity
  5 with no item and no mutation, not to rarity 6 with the strongest item and rainbow.
\<close>

theorem C8_reroll_counterexample:
  "allowed_indices_of weak_player_animals = [1, 2, 3]
   \<and> target_window (\<lambda>s. None) (\<lambda>s. MutNone)
       (calculate_team_power weak_player_animals (\<lambda>s. None) (\<lambda>s. MutNone)) = (45.2, 84.75)
   \<and> team_power over_team = 86.1
   \<and> adjust_step [1, 2, 3] over_team (team_power over_team) 84.75 over_rng =
       Inr (rerolled_over_team, repair_rng)
   \<and> rarity_index (animals rerolled_over_team Slot1) = 3
   \<and> Min (set [1, 2, 3 :: int]) = 1
   \<and> allowed_indices_of strong_player_animals = [5, 6]
   \<and> target_window strong_player_foods rainbow_player_mutations
       (calculate_team_power strong_player_animals strong_player_foods rainbow_player_mutations) =
       (890, 1958)
   \<and> team_power under_team = 561
   \<and> adjust_step [5, 6] under_team (team_power under_team) 1958 under_rng =
       Inr (rerolled_under_team, repair_rng)
   \<and> rarity_index (animals rerolled_under_team Slot3) = 5
   \<and> Max (set [5, 6 :: int]) = 6
   \<and> foods rerolled_under_team Slot3 = None
   \<and> mutations rerolled_under_team Slot3 = MutNone"
proof -
  have "rarity_index (animals rerolled_over_team Slot1) = 3"
    "rarity_index (animals rerolled_under_team Slot3) = 5"
    "foods rerolled_under_team Slot3 = None"
    "mutations rerolled_under_team Slot3 = MutNone"
    by (simp_all add: rerolled_over_team_def rerolled_under_team_def elephant_def octopus_def
        mk_animal_def)
  moreover have "Min (set [1, 2, 3 :: int]) = 1" "Max (set [5, 6 :: int]) = 6"
    by simp_all
  ultimately show ?thesis
    using weak_player_facts rainbow_player_facts strong_player_allowed over_power under_power
      over_step under_step
    by (intro conjI)
qed

text \<open>
  The pass on a team with one item above the window removes the item; on the enemy
  hippo, wolf, swan above the window it is the re-roll, whose unit is one of the catalog,
  of the slot's role and of an allowed rarity.
\<close>

theorem C8_repair_order_witness:
  "catalog_items (foods fed_team)
   \<and> adjust_step [5, 6] fed_team (team_power fed_team) stuck_max repair_rng =
       Inr (stuck_team, repair_rng)
   \<and> catalog_items (foods over_team)
   \<and> adjust_step [1, 2, 3] over_team (team_power over_team) 84.75 over_rng =
       reroll_slot over_team [1, 2, 3] True over_rng
   \<and> (\<exists>s a. a \<in> set ANIMALS \<and> role a = role (animals over_team s)
          \<and> rarity_index a \<in> set [1, 2, 3]
          \<and> rerolled_over_team =
              over_team\<lparr>animals := (animals over_team)(s := a),
                          foods := (foods over_team)(s := None),
                          mutations := (mutations over_team)(s := MutNone)\<rparr>)"
proof -
  have c1: "catalog_items (foods fed_team)"
    by (simp add: catalog_items_def fed_team_def FOODS_def dragons_feast_def)
  have c2: "catalog_items (foods over_team)"
    by (simp add: catalog_items_def over_team_def)
  have h1: "heaviest_item_slot (foods fed_team) = Some Slot3"
    by (simp add: heaviest_item_slot_def fed_team_def)
  have e1: "fed_team\<lparr>foods := (foods fed_team)(Slot3 := None)\<rparr> = stuck_team"
    by (simp add: fed_team_def stuck_team_def)
  have h2: "heaviest_item_slot (foods over_team) = None" "top_mutation_slot (mutations over_team) = None"
    by (simp_all add: heaviest_item_slot_def top_mutation_slot_def over_team_def)
  note w1 = C8_repair_order [OF c1, where allowed = "[5, 6]" and cp = "team_power fed_team"
      and target_max = stuck_max and g = repair_rng]
  note w2 = C8_repair_order [OF c2, where allowed = "[1, 2, 3]" and cp = "team_power over_team"
      and target_max = "84.75" and g = over_rng and over_max = True
      and t' = rerolled_over_team and g' = repair_rng]
  have a1: "adjust_step [5, 6] fed_team (team_power fed_team) stuck_max repair_rng =
      Inr (stuck_team, repair_rng)"
    using w1 stuck_bounds(3) by (simp add: fed_power h1 e1)
  have a2: "adjust_step [1, 2, 3] over_team (team_power over_team) 84.75 over_rng =
      reroll_slot over_team [1, 2, 3] True over_rng"
    using w2 by (simp add: over_power h2)
  have a3: "\<exists>s a. a \<in> set ANIMALS \<and> role a = role (animals over_team s)
          \<and> rarity_index a \<in> set [1, 2, 3]
          \<and> rerolled_over_team =
              over_team\<lparr>animals := (animals over_team)(s := a),
                          foods := (foods over_team)(s := None),
                          mutations := (mutations over_team)(s := MutNone)\<rparr>"
    using w2 over_reroll by auto
  show ?thesis
    by (intro conjI c1 a1 c2 a2 a3)
qed








text \<open>Combat never runs more than 100 rounds.\<close>

theorem combat_within_100_rounds:
  "fst (resolve_combat player_animals player_foods enemy_animals enemy_foods) \<le> 100"
proof -
  have "fst (battle_loop pst est 0 php ehp) \<le> 100" for pst est php ehp
    by (rule battle_loop_rounds_le) simp
  then show ?thesis
    by (simp add: resolve_combat_def Let_def split_beta)
qed

end
